theory Spec2Isabelle
  imports Complex_Main
begin

section \<open>Python values\<close>

text \<open>
  A Python \<open>str\<close> is a sequence of Unicode code points; slicing and \<open>len\<close>
  count code points.  It is modelled as a list of code points, and a literal of the
  source is embedded with \<open>lit\<close>.  A \<open>str\<close> may hold surrogate code points
  (a JSON text can bring them in, as in \<open>"\ud800"\<close>).
\<close>

type_synonym pystr = "nat list"

definition lit :: "string \<Rightarrow> pystr" where
  "lit s = map of_char s"

text \<open>\<open>str(n)\<close> for a non-negative integer: its decimal digits.\<close>

fun str_nat :: "nat \<Rightarrow> pystr" where
  "str_nat n = (if n < 10 then [48 + n] else str_nat (n div 10) @ [48 + n mod 10])"

declare str_nat.simps [simp del]

text \<open>
  The exceptions the modelled code meets, each with the text \<open>str(e)\<close> gives:
  \<open>sqlite3.Error\<close>; \<open>UnicodeEncodeError\<close>, which is not an \<open>sqlite3.Error\<close>;
  and an exception of \<open>json.loads\<close> that is not a \<open>JSONDecodeError\<close>
  (\<open>UnicodeDecodeError\<close>, for bytes that are not UTF-8).
\<close>

datatype exc = SqliteError pystr | UnicodeEncodeError pystr | LoadsError pystr

fun str_exc :: "exc \<Rightarrow> pystr" where
  "str_exc (SqliteError m) = m"
| "str_exc (UnicodeEncodeError m) = m"
| "str_exc (LoadsError m) = m"

text \<open>
  Encoding a \<open>str\<close> as UTF-8, as \<open>sqlite3\<close> does with every text parameter it
  binds: it fails at the first run of surrogates, with \<open>UnicodeEncodeError\<close> and the
  message of CPython (\<open>'\udXXX'\<close> for a single character, the range of positions
  for a longer run).  \<open>None\<close> is success.
\<close>

definition is_surrogate :: "nat \<Rightarrow> bool" where
  "is_surrogate c = (55296 \<le> c \<and> c \<le> 57343)"

definition hex_digit :: "nat \<Rightarrow> nat" where
  "hex_digit d = (if d < 10 then 48 + d else 87 + d)"

definition hex4 :: "nat \<Rightarrow> pystr" where
  "hex4 c = map hex_digit [c div 4096 mod 16, c div 256 mod 16, c div 16 mod 16, c mod 16]"

definition encode_utf8 :: "pystr \<Rightarrow> exc option" where
  "encode_utf8 s =
     (case dropWhile (\<lambda>c. \<not> is_surrogate c) s of
        [] \<Rightarrow> None
      | c # rest \<Rightarrow>
          (let start = length (takeWhile (\<lambda>c. \<not> is_surrogate c) s);
               more = length (takeWhile is_surrogate rest);
               codec = [39] @ lit ''utf-8'' @ [39] @ lit '' codec can'' @ [39] @ lit ''t encode ''
           in Some (UnicodeEncodeError
                (if more = 0
                 then codec @ lit ''character '' @ [39, 92] @ lit ''u'' @ hex4 c @ [39]
                      @ lit '' in position '' @ str_nat start @ lit '': surrogates not allowed''
                 else codec @ lit ''characters in position '' @ str_nat start @ lit ''-''
                      @ str_nat (start + more) @ lit '': surrogates not allowed''))))"

text \<open>Binding the text parameters of a statement in their order: the first failure.\<close>

fun bind_params :: "pystr list \<Rightarrow> exc option" where
  "bind_params [] = None"
| "bind_params (s # ss) = (case encode_utf8 s of Some x \<Rightarrow> Some x | None \<Rightarrow> bind_params ss)"

section \<open>config.py\<close>

record model_cfg =
  cfg_temperature :: real
  cfg_max_tokens :: int
  cfg_top_p :: real
  cfg_repeat_penalty :: real

text \<open>
  Every value of the configuration is read from the process environment with a
  default, so the configuration is a parameter of the model.  \<open>MODEL_PARAMS\<close> has
  the three keys of the source whatever the environment holds.
\<close>

record config =
  DEFAULT_MODEL :: pystr
  LLAMA3 :: model_cfg
  MISTRAL :: model_cfg
  GEMMA :: model_cfg

definition MODEL_PARAMS :: "config \<Rightarrow> pystr \<rightharpoonup> model_cfg" where
  "MODEL_PARAMS cf =
     [lit ''llama3'' \<mapsto> LLAMA3 cf, lit ''mistral'' \<mapsto> MISTRAL cf, lit ''gemma'' \<mapsto> GEMMA cf]"

text \<open>The configuration of an empty environment.\<close>

definition default_config :: config where
  "default_config =
     \<lparr> DEFAULT_MODEL = lit ''llama3'',
       LLAMA3 = \<lparr> cfg_temperature = 0.7, cfg_max_tokens = 2048, cfg_top_p = 0.9,
                  cfg_repeat_penalty = 1.1 \<rparr>,
       MISTRAL = \<lparr> cfg_temperature = 0.72, cfg_max_tokens = 2048, cfg_top_p = 0.9,
                   cfg_repeat_penalty = 1.1 \<rparr>,
       GEMMA = \<lparr> cfg_temperature = 0.7, cfg_max_tokens = 2048, cfg_top_p = 0.9,
                 cfg_repeat_penalty = 1.05 \<rparr> \<rparr>"

section \<open>database.py\<close>

text \<open>
  The tables \<open>chats\<close> and \<open>messages\<close> are lists of rows in insertion order.
  A timestamp is the text of \<open>datetime.now().isoformat()\<close>; the text order of two
  such timestamps is the order of the instants, so a timestamp is modelled as the
  instant, a natural number.
\<close>

record chat_row =
  c_id :: pystr
  c_title :: pystr
  c_model :: pystr
  c_created_at :: nat
  c_updated_at :: nat

record msg_row =
  m_id :: pystr
  m_chat_id :: pystr
  m_role :: pystr
  m_content :: pystr
  m_timestamp :: nat

text \<open>
  A fault of the database is an \<open>sqlite3.Error\<close> with its text, raised either
  before the parameters of the statement are bound (the connection does not open)
  or after (the statement or the commit fails).
\<close>

datatype fault = BeforeBind pystr | AfterBind pystr

text \<open>
  The world a request runs in: the two tables, and what the environment will answer.
  \<open>uuid_src\<close> lists the results of the calls of \<open>uuid.uuid4()\<close>, \<open>clock_src\<close> the
  readings of \<open>datetime.now()\<close>, and \<open>fault_src\<close> the fault, if any, of each use
  of a database connection; each has the count of the answers already consumed.
\<close>

record world =
  chats :: "chat_row list"
  messages :: "msg_row list"
  uuid_src :: "nat \<Rightarrow> pystr"
  uuid_n :: nat
  clock_src :: "nat \<Rightarrow> nat"
  clock_n :: nat
  fault_src :: "nat \<Rightarrow> fault option"
  fault_n :: nat

definition uuid4 :: "world \<Rightarrow> pystr \<times> world" where
  "uuid4 w = (uuid_src w (uuid_n w), w\<lparr> uuid_n := Suc (uuid_n w) \<rparr>)"

definition now_iso :: "world \<Rightarrow> nat \<times> world" where
  "now_iso w = (clock_src w (clock_n w), w\<lparr> clock_n := Suc (clock_n w) \<rparr>)"

text \<open>
  One use of a connection, up to the effect of its statement: \<open>get_db_connection\<close>,
  \<open>cursor.execute\<close> with the given text parameters, \<open>commit\<close>.  The result is the
  exception raised on the way, \<open>None\<close> if there is none.
\<close>

definition db_execute :: "pystr list \<Rightarrow> world \<Rightarrow> exc option \<times> world" where
  "db_execute params w =
     (let w1 = w\<lparr> fault_n := Suc (fault_n w) \<rparr>
      in case fault_src w (fault_n w) of
           Some (BeforeBind e) \<Rightarrow> (Some (SqliteError e), w1)
         | Some (AfterBind e) \<Rightarrow>
             (case bind_params params of
                Some x \<Rightarrow> (Some x, w1)
              | None \<Rightarrow> (Some (SqliteError e), w1))
         | None \<Rightarrow> (bind_params params, w1))"

text \<open>
  \<open>create_chat\<close>: the id and the time are drawn before the connection is opened.
  An \<open>sqlite3.Error\<close> (a fault, or a primary key already present) is raised again
  after the rollback; any other exception leaves the function as well.
\<close>

definition create_chat :: "pystr \<Rightarrow> pystr \<Rightarrow> world \<Rightarrow> (exc + pystr) \<times> world" where
  "create_chat title model w =
     (let (chat_id, w1) = uuid4 w;
          (now, w2) = now_iso w1;
          (raised, w3) = db_execute [chat_id, title, model] w2
      in case raised of
           Some x \<Rightarrow> (Inl x, w3)
         | None \<Rightarrow>
             if chat_id \<in> set (map c_id (chats w3))
             then (Inl (SqliteError (lit ''UNIQUE constraint failed: chats.id'')), w3)
             else (Inr chat_id,
                   w3\<lparr> chats := chats w3 @
                     [\<lparr> c_id = chat_id, c_title = title, c_model = model,
                        c_created_at = now, c_updated_at = now \<rparr>] \<rparr>))"

text \<open>
  \<open>update_chat_timestamp\<close> logs an \<open>sqlite3.Error\<close> and swallows it; another
  exception leaves it (\<open>Some\<close>).
\<close>

definition update_chat_timestamp :: "pystr \<Rightarrow> world \<Rightarrow> exc option \<times> world" where
  "update_chat_timestamp chat_id w =
     (let (now, w1) = now_iso w;
          (raised, w2) = db_execute [chat_id] w1
      in case raised of
           Some (SqliteError e) \<Rightarrow> (None, w2)
         | Some x \<Rightarrow> (Some x, w2)
         | None \<Rightarrow>
             (None,
              w2\<lparr> chats :=
                map (\<lambda>c. if c_id c = chat_id then c\<lparr> c_updated_at := now \<rparr> else c)
                  (chats w2) \<rparr>))"

text \<open>
  \<open>add_message\<close>: the insert fails on a fault, on a primary key already present and,
  foreign keys being on, on a \<open>chat_id\<close> that no chat has.  After the commit the
  timestamp of the chat is updated.
\<close>

definition add_message :: "pystr \<Rightarrow> pystr \<Rightarrow> pystr \<Rightarrow> world \<Rightarrow> (exc + pystr) \<times> world" where
  "add_message chat_id role content w =
     (let (message_id, w1) = uuid4 w;
          (now, w2) = now_iso w1;
          (raised, w3) = db_execute [message_id, chat_id, role, content] w2
      in case raised of
           Some x \<Rightarrow> (Inl x, w3)
         | None \<Rightarrow>
             if message_id \<in> set (map m_id (messages w3))
             then (Inl (SqliteError (lit ''UNIQUE constraint failed: messages.id'')), w3)
             else if chat_id \<notin> set (map c_id (chats w3))
             then (Inl (SqliteError (lit ''FOREIGN KEY constraint failed'')), w3)
             else
               (case update_chat_timestamp chat_id
                       (w3\<lparr> messages := messages w3 @
                          [\<lparr> m_id = message_id, m_chat_id = chat_id, m_role = role,
                             m_content = content, m_timestamp = now \<rparr>] \<rparr>) of
                  (Some x, w4) \<Rightarrow> (Inl x, w4)
                | (None, w4) \<Rightarrow> (Inr message_id, w4)))"

text \<open>
  \<open>SELECT * FROM messages WHERE chat_id = ? ORDER BY timestamp\<close>; rows of equal
  timestamp come in insertion order (\<open>sort_key\<close> is stable).
\<close>

definition select_messages :: "world \<Rightarrow> pystr \<Rightarrow> msg_row list" where
  "select_messages w chat_id =
     sort_key m_timestamp (filter (\<lambda>m. m_chat_id m = chat_id) (messages w))"

text \<open>
  The three functions below catch \<open>sqlite3.Error\<close> and return a default; an
  exception of another class leaves them (\<open>Inl\<close>).
\<close>

definition get_chat ::
  "pystr \<Rightarrow> world \<Rightarrow> (exc + (chat_row \<times> msg_row list) option) \<times> world" where
  "get_chat chat_id w =
     (let (raised, w1) = db_execute [chat_id] w
      in case raised of
           Some (SqliteError e) \<Rightarrow> (Inr None, w1)
         | Some x \<Rightarrow> (Inl x, w1)
         | None \<Rightarrow>
             (case find (\<lambda>c. c_id c = chat_id) (chats w1) of
                None \<Rightarrow> (Inr None, w1)
              | Some chat \<Rightarrow> (Inr (Some (chat, select_messages w1 chat_id)), w1)))"

definition get_chat_messages :: "pystr \<Rightarrow> world \<Rightarrow> (exc + msg_row list) \<times> world" where
  "get_chat_messages chat_id w =
     (let (raised, w1) = db_execute [chat_id] w
      in case raised of
           Some (SqliteError e) \<Rightarrow> (Inr [], w1)
         | Some x \<Rightarrow> (Inl x, w1)
         | None \<Rightarrow> (Inr (select_messages w1 chat_id), w1))"

text \<open>
  \<open>delete_chat\<close>: the \<open>DELETE\<close> removes the rows whose id matches (none, for an id
  that no chat has) and the cascade removes the messages of the rows removed;
  \<open>True\<close> is returned unless \<open>sqlite3\<close> raised.
\<close>

definition delete_chat :: "pystr \<Rightarrow> world \<Rightarrow> (exc + bool) \<times> world" where
  "delete_chat chat_id w =
     (let (raised, w1) = db_execute [chat_id] w
      in case raised of
           Some (SqliteError e) \<Rightarrow> (Inr False, w1)
         | Some x \<Rightarrow> (Inl x, w1)
         | None \<Rightarrow>
             (let deleted = filter (\<lambda>c. c_id c = chat_id) (chats w1)
              in (Inr True,
                  w1\<lparr> chats := filter (\<lambda>c. c_id c \<noteq> chat_id) (chats w1),
                      messages :=
                        filter (\<lambda>m. m_chat_id m \<notin> set (map c_id deleted)) (messages w1) \<rparr>)))"

section \<open>ollama_client.py\<close>

text \<open>
  What the transport answers to a request: \<open>HttpFail e\<close> when \<open>requests\<close> raises
  (with \<open>str(e)\<close>), \<open>HttpResp status body\<close> otherwise, where \<open>body\<close> is what
  \<open>response.json()\<close> gives: the decoded value, or the text of the error it raises.
\<close>

datatype 'b http_result =
    HttpFail pystr
  | HttpResp nat "pystr + 'b"

text \<open>
  A JSON object of the chat endpoint, as far as the code reads it: the keys
  \<open>error\<close> and \<open>message\<close>, and \<open>content\<close> inside \<open>message\<close>; \<open>None\<close> is an
  absent key.  The dictionaries \<open>{"error": ...}\<close> that the client builds itself
  have the same type.
\<close>

record msg_obj =
  mo_content :: "pystr option"

record chunk =
  ch_error :: "pystr option"
  ch_message :: "msg_obj option"

definition error_dict :: "pystr \<Rightarrow> chunk" where
  "error_dict msg = \<lparr> ch_error = Some msg, ch_message = None \<rparr>"

record chat_request =
  q_model :: pystr
  q_messages :: "(pystr \<times> pystr) list"
  q_stream :: bool
  q_temperature :: real
  q_num_predict :: int

text \<open>
  \<open>MODEL_PARAMS.get(model, MODEL_PARAMS.get(DEFAULT_MODEL, {}))\<close>; \<open>None\<close> is the
  empty dictionary.
\<close>

definition model_config :: "config \<Rightarrow> pystr \<Rightarrow> model_cfg option" where
  "model_config cf model =
     (case MODEL_PARAMS cf model of
        Some c \<Rightarrow> Some c
      | None \<Rightarrow> MODEL_PARAMS cf (DEFAULT_MODEL cf))"

text \<open>
  The first half of \<open>OllamaClient.chat\<close> and of \<open>OllamaClient.chat_stream\<close>, the
  same text in both but for the value of \<open>stream\<close>: defaults from the
  configuration, the message list, the request body.
\<close>

definition request_body ::
  "config \<Rightarrow> pystr \<Rightarrow> pystr \<Rightarrow> (pystr \<times> pystr) list \<Rightarrow> real option \<Rightarrow> int option \<Rightarrow> bool
     \<Rightarrow> chat_request" where
  "request_body cf model message history temperature max_tokens stream =
     (let model_config = model_config cf model;
          temperature =
            (case temperature of
               None \<Rightarrow> (case model_config of None \<Rightarrow> 0.7 | Some c \<Rightarrow> cfg_temperature c)
             | Some t \<Rightarrow> t);
          max_tokens =
            (case max_tokens of
               None \<Rightarrow> (case model_config of None \<Rightarrow> 2048 | Some c \<Rightarrow> cfg_max_tokens c)
             | Some n \<Rightarrow> n);
          messages = (if history \<noteq> [] then history else []) @ [(lit ''user'', message)]
      in \<lparr> q_model = model, q_messages = messages, q_stream = stream,
           q_temperature = temperature, q_num_predict = max_tokens \<rparr>)"

text \<open>\<open>OllamaClient.chat\<close>: the request sent, and the dictionary returned.\<close>

definition ollama_chat ::
  "config \<Rightarrow> pystr \<Rightarrow> pystr \<Rightarrow> (pystr \<times> pystr) list \<Rightarrow> real option \<Rightarrow> int option
     \<Rightarrow> chunk http_result \<Rightarrow> chat_request \<times> chunk" where
  "ollama_chat cf model message history temperature max_tokens net =
     (request_body cf model message history temperature max_tokens False,
      case net of
        HttpFail e \<Rightarrow> error_dict (lit ''Verbindungsfehler bei Chat-Anfrage: '' @ e)
      | HttpResp status body \<Rightarrow>
          if status = 200 then
            (case body of
               Inr j \<Rightarrow> j
             | Inl e \<Rightarrow> error_dict (lit ''Verbindungsfehler bei Chat-Anfrage: '' @ e))
          else error_dict (lit ''Fehler bei der Chat-Anfrage: '' @ str_nat status))"

text \<open>
  The streaming transport: \<open>ConnectFail e\<close> when \<open>requests.post\<close> raises a
  \<open>RequestException\<close>; otherwise the status, the lines that \<open>iter_lines\<close> delivers
  and, if the transport breaks after them, the \<open>RequestException\<close> it raises then.
  A line is empty (\<open>Blank\<close>), or decodes to an object (\<open>GoodLine\<close>), or makes
  \<open>json.loads\<close> raise \<open>JSONDecodeError\<close> (\<open>BadLine\<close>, with the text of the
  error), or makes it raise an exception of another class (\<open>RaisingLine\<close>, with
  its text; a line of bytes that are not UTF-8).
\<close>

datatype line = Blank | GoodLine chunk | BadLine pystr | RaisingLine pystr

datatype stream_transport =
    ConnectFail pystr
  | StreamResp nat "line list" "pystr option"

text \<open>
  The loop over \<open>response.iter_lines()\<close>: the chunks it yields, and the exception
  that ends it, if any.  \<open>JSONDecodeError\<close> is caught inside the loop, which then
  goes on; an exception of another class is caught nowhere in \<open>chat_stream\<close> and
  leaves the generator.
\<close>

fun stream_lines :: "line list \<Rightarrow> chunk list \<times> exc option" where
  "stream_lines [] = ([], None)"
| "stream_lines (Blank # ls) = stream_lines ls"
| "stream_lines (GoodLine c # ls) = (case stream_lines ls of (cs, x) \<Rightarrow> (c # cs, x))"
| "stream_lines (BadLine e # ls) =
     (case stream_lines ls of
        (cs, x) \<Rightarrow> (error_dict (lit ''Fehler beim Parsen der Antwort: '' @ e) # cs, x))"
| "stream_lines (RaisingLine e # ls) = ([], Some (LoadsError e))"

text \<open>
  The chunks that the generator \<open>OllamaClient.chat_stream\<close> yields when it is run
  to its end, and the exception that leaves it, if any: the part of the function
  after the request is sent.
\<close>

definition stream_chunks :: "stream_transport \<Rightarrow> chunk list \<times> exc option" where
  "stream_chunks tr =
     (case tr of
        ConnectFail e \<Rightarrow>
          ([error_dict (lit ''Verbindungsfehler bei Stream-Anfrage: '' @ e)], None)
      | StreamResp status ls broken \<Rightarrow>
          if status \<noteq> 200 then
            ([error_dict (lit ''Fehler bei der Stream-Anfrage: '' @ str_nat status)], None)
          else
            (case stream_lines ls of
               (cs, Some x) \<Rightarrow> (cs, Some x)
             | (cs, None) \<Rightarrow>
                 (cs @
                  (case broken of
                     None \<Rightarrow> []
                   | Some e \<Rightarrow>
                       [error_dict (lit ''Verbindungsfehler bei Stream-Anfrage: '' @ e)]),
                  None)))"

text \<open>\<open>OllamaClient.chat_stream\<close>: the request sent, and the chunks.\<close>

definition ollama_chat_stream ::
  "config \<Rightarrow> pystr \<Rightarrow> pystr \<Rightarrow> (pystr \<times> pystr) list \<Rightarrow> real option \<Rightarrow> int option
     \<Rightarrow> stream_transport \<Rightarrow> chat_request \<times> chunk list \<times> exc option" where
  "ollama_chat_stream cf model message history temperature max_tokens tr =
     (request_body cf model message history temperature max_tokens True, stream_chunks tr)"

text \<open>
  The client object, as far as \<open>get_models\<close> uses it.  The snapshot of the models
  is opaque.  In the cache and in a decoded body \<open>None\<close> is Python's \<open>None\<close>: the
  cache before the first refresh, and a body that is the JSON text \<open>null\<close>.
\<close>

record 'm client =
  cache_timestamp :: real
  cache_data :: "'m option"
  models_cache_time :: real

definition init_client :: "'m client" where
  "init_client = \<lparr> cache_timestamp = 0, cache_data = None, models_cache_time = 300 \<rparr>"

text \<open>
  \<open>OllamaClient.get_models\<close>, with the reading of \<open>time.time()\<close> as a parameter.
  It returns the data or the text of the error, the client after the call, and the
  number of requests sent to the upstream server.  \<open>refresh_models\<close> is the part
  after the cache test; on status 200 it stores the timestamp before
  \<open>response.json()\<close> is evaluated.
\<close>

definition refresh_models ::
  "'m client \<Rightarrow> real \<Rightarrow> 'm option http_result \<Rightarrow> (pystr + 'm option) \<times> 'm client \<times> nat"
  where
  "refresh_models c current_time net =
     (case net of
        HttpFail e \<Rightarrow> (Inl (lit ''Verbindungsfehler bei Modellabfrage: '' @ e), c, 1)
      | HttpResp status body \<Rightarrow>
          if status = 200 then
            (let c1 = c\<lparr> cache_timestamp := current_time \<rparr>
             in case body of
                  Inr d \<Rightarrow> (Inr d, c1\<lparr> cache_data := d \<rparr>, 1)
                | Inl e \<Rightarrow> (Inl (lit ''Verbindungsfehler bei Modellabfrage: '' @ e), c1, 1))
          else (Inl (lit ''Fehler beim Abrufen der Modelle: '' @ str_nat status), c, 1))"

definition ollama_get_models ::
  "'m client \<Rightarrow> real \<Rightarrow> bool \<Rightarrow> 'm option http_result
     \<Rightarrow> (pystr + 'm option) \<times> 'm client \<times> nat" where
  "ollama_get_models c current_time force_refresh net =
     (case cache_data c of
        Some d \<Rightarrow>
          if \<not> force_refresh \<and> current_time - cache_timestamp c < models_cache_time c
          then (Inr (Some d), c, 0)
          else refresh_models c current_time net
      | None \<Rightarrow> refresh_models c current_time net)"

section \<open>server.py: what is modelled\<close>

text \<open>
  \<open>server.py\<close> does not load as shipped.  In \<open>generate\<close>, the function nested in
  \<open>stream_chat\<close>, the statement \<open>nonlocal chat_id\<close> (line 229) comes after
  \<open>chat_id\<close> has been read by \<open>if not chat_id:\<close> (line 223).  Python rejects
  this when it compiles the file (\<open>SyntaxError: name 'chat_id' is used prior to
  nonlocal declaration\<close>), so the import of the module fails and none of its
  handlers ever runs.

  The definitions of the sections on \<open>server.py\<close> embed the handlers as their text
  reads with that one declaration moved to the head of \<open>generate\<close>: the change
  that lets the file compile, and one that alters no other statement.  Every
  statement about \<open>chat\<close>, \<open>stream_chat\<close>, \<open>generate\<close>, \<open>get_chat_by_id\<close>
  and \<open>delete_chat_by_id\<close> is therefore a statement about this repaired text, not
  about a run of the file as shipped.  \<open>config.py\<close>, \<open>database.py\<close> and
  \<open>ollama_client.py\<close> load as they are, and the definitions of their sections
  embed them unchanged.

  An exception that leaves a view function is not answered by the handler: Flask
  answers it with its own status 500.  The replies have a case \<open>Unhandled\<close> for it.
\<close>

section \<open>server.py: reading and deleting a chat\<close>

datatype get_reply =
    ChatFound chat_row "msg_row list"
  | ChatNotFound nat pystr
  | GetUnhandled exc

datatype delete_reply =
    DeleteOk bool pystr
  | DeleteFailed nat pystr
  | DeleteUnhandled exc

definition get_chat_by_id :: "pystr \<Rightarrow> world \<Rightarrow> get_reply \<times> world" where
  "get_chat_by_id chat_id w =
     (case get_chat chat_id w of
        (Inl x, w1) \<Rightarrow> (GetUnhandled x, w1)
      | (Inr (Some (chat, msgs)), w1) \<Rightarrow> (ChatFound chat msgs, w1)
      | (Inr None, w1) \<Rightarrow> (ChatNotFound 404 (lit ''Chat nicht gefunden''), w1))"

definition delete_chat_by_id :: "pystr \<Rightarrow> world \<Rightarrow> delete_reply \<times> world" where
  "delete_chat_by_id chat_id w =
     (case delete_chat chat_id w of
        (Inl x, w1) \<Rightarrow> (DeleteUnhandled x, w1)
      | (Inr success, w1) \<Rightarrow>
          if success then (DeleteOk True (lit ''Chat erfolgreich gel'' @ [246] @ lit ''scht''), w1)
          else (DeleteFailed 500 (lit ''Fehler beim L'' @ [246] @ lit ''schen des Chats''), w1))"

section \<open>server.py: the chat turn\<close>

text \<open>
  The JSON body of a request, as far as the handlers read it: a JSON object whose
  fields have the types the handlers document; \<open>None\<close> is an absent key.  The body
  itself is \<open>None\<close> when \<open>request.json\<close> is \<open>None\<close>.  A body that is a JSON value of
  another kind (a list, a number, a string) is not modelled.
\<close>

record request =
  rq_model :: "pystr option"
  rq_message :: "pystr option"
  rq_chat_id :: "pystr option"
  rq_temperature :: "real option"
  rq_max_tokens :: "int option"

text \<open>What a handler does, in order, besides answering.\<close>

datatype frame =
    ChatIdFrame pystr
  | ContentFrame pystr
  | DoneFrame pystr
  | ErrorFrame pystr

datatype event =
    Net chat_request
  | Created pystr pystr pystr
  | Persisted pystr pystr pystr pystr
  | DbError exc
  | Yield frame

text \<open>
  \<open>Net\<close>: a request is sent to the upstream server.  \<open>Created id title model\<close> and
  \<open>Persisted id chat_id role content\<close>: \<open>create_chat\<close> and \<open>add_message\<close> have
  returned the id of the row.  \<open>DbError\<close>: one of them has raised.  \<open>Yield\<close>: the
  generator hands a frame to the transport.
\<close>

text \<open>\<open>message[:50] + ('...' if len(message) > 50 else '')\<close>\<close>

definition chat_title :: "pystr \<Rightarrow> pystr" where
  "chat_title message = take 50 message @ (if length message > 50 then lit ''...'' else [])"

text \<open>The chat id of the request when it is truthy: neither absent nor empty.\<close>

definition given_chat_id :: "pystr option \<Rightarrow> pystr option" where
  "given_chat_id chat_id =
     (case chat_id of None \<Rightarrow> None | Some s \<Rightarrow> if s = [] then None else Some s)"

text \<open>
  The history of the chat, read before the upstream call and outside any \<open>try\<close>:
  an exception of \<open>get_chat_messages\<close> leaves the handler.
\<close>

definition load_history ::
  "pystr option \<Rightarrow> world \<Rightarrow> (exc + (pystr \<times> pystr) list) \<times> world" where
  "load_history chat_id w =
     (case given_chat_id chat_id of
        None \<Rightarrow> (Inr [], w)
      | Some cid \<Rightarrow>
          (case get_chat_messages cid w of
             (Inl x, w1) \<Rightarrow> (Inl x, w1)
           | (Inr msgs, w1) \<Rightarrow>
               (Inr (if msgs \<noteq> [] then map (\<lambda>m. (m_role m, m_content m)) msgs else []), w1)))"

text \<open>\<open>response.get("message", {}).get("content", "")\<close>\<close>

definition response_content :: "chunk \<Rightarrow> pystr" where
  "response_content response =
     (case ch_message response of
        None \<Rightarrow> []
      | Some m \<Rightarrow> (case mo_content m of None \<Rightarrow> [] | Some c \<Rightarrow> c))"

datatype chat_reply =
    ChatError nat pystr
  | ChatOk pystr pystr pystr
  | ChatWarning pystr pystr pystr
  | ChatUnhandled exc

text \<open>
  \<open>ChatError status error\<close>, \<open>ChatOk chat_id response message_id\<close> and
  \<open>ChatWarning warning response error\<close> are the three JSON answers of \<open>chat\<close>.

  \<open>store_turn\<close> is the \<open>try\<close> block of \<open>chat\<close> with its handler: any exception
  of the three storage calls ends in the warning answer.
\<close>

definition warning_reply :: "chunk \<Rightarrow> exc \<Rightarrow> chat_reply" where
  "warning_reply response e =
     ChatWarning (lit ''Antwort erhalten, aber Fehler beim Speichern'')
       (response_content response) (str_exc e)"

definition store_messages ::
  "pystr \<Rightarrow> pystr \<Rightarrow> chunk \<Rightarrow> world \<Rightarrow> chat_reply \<times> world \<times> event list" where
  "store_messages chat_id message response w =
     (case add_message chat_id (lit ''user'') message w of
        (Inl e, w1) \<Rightarrow> (warning_reply response e, w1, [DbError e])
      | (Inr user_message_id, w1) \<Rightarrow>
          (let assistant_content = response_content response
           in case add_message chat_id (lit ''assistant'') assistant_content w1 of
                (Inl e, w2) \<Rightarrow>
                  (warning_reply response e, w2,
                   [Persisted user_message_id chat_id (lit ''user'') message, DbError e])
              | (Inr assistant_message_id, w2) \<Rightarrow>
                  (ChatOk chat_id assistant_content assistant_message_id, w2,
                   [Persisted user_message_id chat_id (lit ''user'') message,
                    Persisted assistant_message_id chat_id (lit ''assistant'')
                      assistant_content])))"

definition store_turn ::
  "pystr \<Rightarrow> pystr \<Rightarrow> pystr option \<Rightarrow> chunk \<Rightarrow> world \<Rightarrow> chat_reply \<times> world \<times> event list" where
  "store_turn model message chat_id response w =
     (case given_chat_id chat_id of
        None \<Rightarrow>
          (let title = chat_title message
           in case create_chat title model w of
                (Inl e, w1) \<Rightarrow> (warning_reply response e, w1, [DbError e])
              | (Inr new_chat_id, w1) \<Rightarrow>
                  (case store_messages new_chat_id message response w1 of
                     (reply, w2, evs) \<Rightarrow> (reply, w2, Created new_chat_id title model # evs)))
      | Some cid \<Rightarrow> store_messages cid message response w)"

text \<open>
  \<open>chat\<close>.  The test of the required fields is \<open>not data or not all(key in data
  for key in ['model', 'message'])\<close>: it rejects a body that is \<open>None\<close> or empty and
  a body without one of the two keys, and it reads no value.  After it both keys are
  present, so the default of \<open>data.get('model', DEFAULT_MODEL)\<close> is never taken.
\<close>

definition chat_turn ::
  "config \<Rightarrow> pystr \<Rightarrow> pystr \<Rightarrow> pystr option \<Rightarrow> real option \<Rightarrow> int option \<Rightarrow> chunk http_result
     \<Rightarrow> world \<Rightarrow> chat_reply \<times> world \<times> event list" where
  "chat_turn cf model message chat_id temperature max_tokens net w =
     (case load_history chat_id w of
        (Inl x, w1) \<Rightarrow> (ChatUnhandled x, w1, [])
      | (Inr history, w1) \<Rightarrow>
          (case ollama_chat cf model message history temperature max_tokens net of
             (req, response) \<Rightarrow>
               (case ch_error response of
                  Some err \<Rightarrow> (ChatError 500 err, w1, [Net req])
                | None \<Rightarrow>
                    (case store_turn model message chat_id response w1 of
                       (reply, w2, evs) \<Rightarrow> (reply, w2, Net req # evs)))))"

definition chat ::
  "config \<Rightarrow> request option \<Rightarrow> chunk http_result \<Rightarrow> world \<Rightarrow> chat_reply \<times> world \<times> event list"
  where
  "chat cf data net w =
     (case data of
        None \<Rightarrow> (ChatError 400 (lit ''Modell und Nachricht sind erforderlich''), w, [])
      | Some d \<Rightarrow>
          (case (rq_model d, rq_message d) of
             (Some model, Some message) \<Rightarrow>
               chat_turn cf model message (rq_chat_id d) (rq_temperature d) (rq_max_tokens d)
                 net w
           | _ \<Rightarrow> (ChatError 400 (lit ''Modell und Nachricht sind erforderlich''), w, [])))"

section \<open>server.py: the streaming turn\<close>

text \<open>
  The loop of \<open>generate\<close> over the chunks, from the accumulated \<open>full_response\<close>:
  the frames it yields and how it ends.  It ends when the chunks do
  (\<open>Completed\<close>, with the full response), when an error chunk makes \<open>generate\<close>
  return (\<open>Returned\<close>), or when the generator of the chunks raises (\<open>Threw\<close>).
\<close>

datatype loop_end = Completed pystr | Returned | Threw exc

fun relay :: "chunk list \<Rightarrow> exc option \<Rightarrow> pystr \<Rightarrow> event list \<times> loop_end" where
  "relay [] raised full_response =
     ([], case raised of None \<Rightarrow> Completed full_response | Some e \<Rightarrow> Threw e)"
| "relay (c # cs) raised full_response =
     (case ch_error c of
        Some err \<Rightarrow> ([Yield (ErrorFrame err)], Returned)
      | None \<Rightarrow>
          (case ch_message c of
             None \<Rightarrow> relay cs raised full_response
           | Some m \<Rightarrow>
               (case mo_content m of
                  None \<Rightarrow> relay cs raised full_response
                | Some content \<Rightarrow>
                    (case relay cs raised (full_response @ content) of
                       (evs, r) \<Rightarrow> (Yield (ContentFrame content) # evs, r)))))"

text \<open>
  The \<open>try\<close> block of \<open>generate\<close> with its handler: the request goes out when the
  loop asks for the first chunk; after the last chunk the assistant message is
  stored and the completion frame follows; an exception, of the generator of the
  chunks or of \<open>add_message\<close>, is turned into an error frame.
\<close>

definition stream_and_store ::
  "config \<Rightarrow> pystr \<Rightarrow> pystr \<Rightarrow> pystr \<Rightarrow> (pystr \<times> pystr) list \<Rightarrow> real option \<Rightarrow> int option
     \<Rightarrow> stream_transport \<Rightarrow> world \<Rightarrow> world \<times> event list" where
  "stream_and_store cf model message chat_id history temperature max_tokens tr w =
     (case ollama_chat_stream cf model message history temperature max_tokens tr of
        (req, chunks, raised) \<Rightarrow>
          (case relay chunks raised [] of
             (evs, Returned) \<Rightarrow> (w, Net req # evs)
           | (evs, Threw e) \<Rightarrow> (w, Net req # evs @ [Yield (ErrorFrame (str_exc e))])
           | (evs, Completed full_response) \<Rightarrow>
               (case add_message chat_id (lit ''assistant'') full_response w of
                  (Inl e, w1) \<Rightarrow>
                    (w1, Net req # evs @ [DbError e, Yield (ErrorFrame (str_exc e))])
                | (Inr assistant_message_id, w1) \<Rightarrow>
                    (w1, Net req # evs @
                       [Persisted assistant_message_id chat_id (lit ''assistant'') full_response,
                        Yield (DoneFrame assistant_message_id)]))))"

text \<open>
  \<open>generate\<close>, run to its end: the world after it, what it did, and the exception
  that ended it, if one left the generator.  The chat and the user message are
  stored outside the \<open>try\<close> block.  In the \<open>elif\<close> branch \<open>chat_created\<close> is still
  \<open>False\<close>.  The declaration \<open>nonlocal chat_id\<close> is read at the head of the
  function (see the section on what is modelled).
\<close>

definition generate ::
  "config \<Rightarrow> pystr \<Rightarrow> pystr \<Rightarrow> pystr option \<Rightarrow> (pystr \<times> pystr) list \<Rightarrow> real option
     \<Rightarrow> int option \<Rightarrow> stream_transport \<Rightarrow> world \<Rightarrow> world \<times> event list \<times> exc option" where
  "generate cf model message chat_id history temperature max_tokens tr w =
     (case given_chat_id chat_id of
        None \<Rightarrow>
          (let title = chat_title message
           in case create_chat title model w of
                (Inl e, w1) \<Rightarrow> (w1, [DbError e], Some e)
              | (Inr new_chat_id, w1) \<Rightarrow>
                  (case add_message new_chat_id (lit ''user'') message w1 of
                     (Inl e, w2) \<Rightarrow> (w2, [Created new_chat_id title model, DbError e], Some e)
                   | (Inr user_message_id, w2) \<Rightarrow>
                       (case stream_and_store cf model message new_chat_id history temperature
                               max_tokens tr w2 of
                          (w3, evs) \<Rightarrow>
                            (w3,
                             [Created new_chat_id title model,
                              Persisted user_message_id new_chat_id (lit ''user'') message,
                              Yield (ChatIdFrame new_chat_id)] @ evs,
                             None))))
      | Some cid \<Rightarrow>
          (case add_message cid (lit ''user'') message w of
             (Inl e, w1) \<Rightarrow> (w1, [DbError e], Some e)
           | (Inr user_message_id, w1) \<Rightarrow>
               (case stream_and_store cf model message cid history temperature max_tokens tr w1 of
                  (w2, evs) \<Rightarrow>
                    (w2, Persisted user_message_id cid (lit ''user'') message # evs, None))))"

datatype stream_reply =
    StreamRejected nat pystr
  | EventStream "exc option"
  | StreamUnhandled exc

text \<open>
  \<open>stream_chat\<close>: the same test of the required fields as \<open>chat\<close>, the history
  read at once, and the generator, run to its end by the transport.
\<close>

definition stream_chat ::
  "config \<Rightarrow> request option \<Rightarrow> stream_transport \<Rightarrow> world
     \<Rightarrow> stream_reply \<times> world \<times> event list" where
  "stream_chat cf data tr w =
     (case data of
        None \<Rightarrow> (StreamRejected 400 (lit ''Modell und Nachricht sind erforderlich''), w, [])
      | Some d \<Rightarrow>
          (case (rq_model d, rq_message d) of
             (Some model, Some message) \<Rightarrow>
               (case load_history (rq_chat_id d) w of
                  (Inl x, w1) \<Rightarrow> (StreamUnhandled x, w1, [])
                | (Inr history, w1) \<Rightarrow>
                    (case generate cf model message (rq_chat_id d) history (rq_temperature d)
                            (rq_max_tokens d) tr w1 of
                       (w2, evs, raised) \<Rightarrow> (EventStream raised, w2, evs)))
           | _ \<Rightarrow> (StreamRejected 400 (lit ''Modell und Nachricht sind erforderlich''), w, [])))"

text \<open>Reading a trace.\<close>

definition content_frames :: "event list \<Rightarrow> pystr list" where
  "content_frames evs = [c. Yield (ContentFrame c) \<leftarrow> evs]"

definition done_frames :: "event list \<Rightarrow> pystr list" where
  "done_frames evs = [i. Yield (DoneFrame i) \<leftarrow> evs]"

definition error_frames :: "event list \<Rightarrow> pystr list" where
  "error_frames evs = [e. Yield (ErrorFrame e) \<leftarrow> evs]"

definition net_calls :: "event list \<Rightarrow> chat_request list" where
  "net_calls evs = [q. Net q \<leftarrow> evs]"

definition db_errors :: "event list \<Rightarrow> exc list" where
  "db_errors evs = [e. DbError e \<leftarrow> evs]"

definition assistant_writes :: "event list \<Rightarrow> (pystr \<times> pystr) list" where
  "assistant_writes evs = [(i, c). Persisted i cid role c \<leftarrow> evs, role = lit ''assistant'']"

section \<open>Predicates of the statements and concrete inputs\<close>

text \<open>
  \<open>resolved_from temperature max_tokens c q\<close>: the two options of the request \<open>q\<close>
  are the explicit values where they are given and the defaults of the one
  configuration \<open>c\<close> where they are not.
\<close>

definition resolved_from :: "real option \<Rightarrow> int option \<Rightarrow> model_cfg \<Rightarrow> chat_request \<Rightarrow> bool" where
  "resolved_from temperature max_tokens c q =
     (q_temperature q = (case temperature of Some t \<Rightarrow> t | None \<Rightarrow> cfg_temperature c)
      \<and> q_num_predict q = (case max_tokens of Some n \<Rightarrow> n | None \<Rightarrow> cfg_max_tokens c))"

text \<open>
  A call of \<open>get_models\<close> attempts a refresh when it is not served from the cache;
  \<open>refresh_fails\<close> holds of a network failure and of a status other than 200.
\<close>

definition refresh_attempted :: "'m client \<Rightarrow> real \<Rightarrow> bool \<Rightarrow> bool" where
  "refresh_attempted c current_time force_refresh =
     (force_refresh \<or> cache_data c = None
      \<or> \<not> current_time - cache_timestamp c < models_cache_time c)"

definition refresh_fails :: "'m http_result \<Rightarrow> bool" where
  "refresh_fails net =
     (case net of HttpFail e \<Rightarrow> True | HttpResp status body \<Rightarrow> status \<noteq> 200)"

text \<open>
  \<open>fk_ok\<close>: every stored message belongs to a stored chat, as the foreign key of
  the table \<open>messages\<close> demands.  \<open>first_turn_stored w w' cid model message txt\<close>:
  from \<open>w\<close> to \<open>w'\<close> the table of chats has gained exactly one row, a chat with the
  new id \<open>cid\<close>; its title is the first 50 characters of the message, followed by
  three dots if the message has more than 50 characters and by nothing otherwise;
  and the chat \<open>cid\<close> reads back as the user message followed by the assistant
  message \<open>txt\<close>.
\<close>

definition fk_ok :: "world \<Rightarrow> bool" where
  "fk_ok w = list_all (\<lambda>m. m_chat_id m \<in> set (map c_id (chats w))) (messages w)"

definition first_turn_stored ::
  "world \<Rightarrow> world \<Rightarrow> pystr \<Rightarrow> pystr \<Rightarrow> pystr \<Rightarrow> pystr \<Rightarrow> bool" where
  "first_turn_stored w w' cid model message txt =
     (cid \<notin> set (map c_id (chats w))
      \<and> (\<exists>row. chats w' = chats w @ [row] \<and> c_id row = cid \<and> c_model row = model
             \<and> (if 50 < length message
                 then c_title row = take 50 message @ [46, 46, 46]
                 else c_title row = message))
      \<and> map (\<lambda>m. (m_role m, m_content m)) (select_messages w' cid)
          = [(lit ''user'', message), (lit ''assistant'', txt)])"

text \<open>
  An empty database in an environment where storage never fails and the clock
  ticks; the same with a chat of two messages stored; a request for a first turn,
  and one whose message has 60 characters; a client with a snapshot cached at time
  1000.
\<close>

definition fresh_world :: world where
  "fresh_world =
     \<lparr> chats = [], messages = [],
       uuid_src = (\<lambda>n. lit ''uuid-'' @ str_nat n), uuid_n = 0,
       clock_src = (\<lambda>n. n), clock_n = 0,
       fault_src = (\<lambda>n. None), fault_n = 0 \<rparr>"

definition stocked_world :: world where
  "stocked_world =
     fresh_world
       \<lparr> chats := [\<lparr> c_id = lit ''chat-1'', c_title = lit ''Hello'', c_model = lit ''llama3'',
                     c_created_at = 0, c_updated_at = 0 \<rparr>],
         messages := [\<lparr> m_id = lit ''msg-1'', m_chat_id = lit ''chat-1'', m_role = lit ''user'',
                        m_content = lit ''Hello'', m_timestamp = 0 \<rparr>,
                      \<lparr> m_id = lit ''msg-2'', m_chat_id = lit ''chat-1'',
                        m_role = lit ''assistant'', m_content = lit ''Hi there'',
                        m_timestamp = 0 \<rparr>] \<rparr>"

definition hello_request :: request where
  "hello_request =
     \<lparr> rq_model = Some (lit ''llama3''), rq_message = Some (lit ''Hello''), rq_chat_id = None,
       rq_temperature = None, rq_max_tokens = None \<rparr>"

definition long_request :: request where
  "long_request = hello_request\<lparr> rq_message := Some (replicate 60 97) \<rparr>"

definition cached_client :: "nat client" where
  "cached_client = \<lparr> cache_timestamp = 1000, cache_data = Some 7, models_cache_time = 300 \<rparr>"

text \<open>
  The streams of the examples: two content chunks with an empty line between them;
  a content chunk after which the transport breaks; a content chunk followed by a
  line that is not UTF-8.  A blocking answer with the same text.  Worlds in which
  the second use of the database fails, in which the fourth does (the write of the
  assistant message of a first streaming turn), and in which the clock runs
  backwards.
\<close>

definition content_chunk :: "pystr \<Rightarrow> chunk" where
  "content_chunk s = \<lparr> ch_error = None, ch_message = Some \<lparr> mo_content = Some s \<rparr> \<rparr>"

definition hi_there :: stream_transport where
  "hi_there =
     StreamResp 200
       [GoodLine (content_chunk (lit ''Hi'')), Blank, GoodLine (content_chunk (lit '' there''))]
       None"

definition hi_broken :: stream_transport where
  "hi_broken =
     StreamResp 200 [GoodLine (content_chunk (lit ''Hi''))] (Some (lit ''connection reset''))"

definition hi_not_utf8 :: stream_transport where
  "hi_not_utf8 =
     StreamResp 200
       [GoodLine (content_chunk (lit ''Hi'')), RaisingLine (lit ''invalid start byte'')] None"

definition hi_response :: "chunk http_result" where
  "hi_response = HttpResp 200 (Inr (content_chunk (lit ''Hi there'')))"


definition late_fault_world :: world where
  "late_fault_world =
     fresh_world\<lparr> fault_src :=
       (\<lambda>n. if n = 3 then Some (AfterBind (lit ''disk I/O error'')) else None) \<rparr>"

definition backward_world :: world where
  "backward_world = fresh_world\<lparr> clock_src := (\<lambda>n. 10 - n) \<rparr>"

text \<open>The request that the streaming turn of \<open>hello_request\<close> sends upstream.\<close>

definition hello_llama :: chat_request where
  "hello_llama =
     \<lparr> q_model = lit ''llama3'', q_messages = [(lit ''user'', lit ''Hello'')],
       q_stream = True, q_temperature = 0.7, q_num_predict = 2048 \<rparr>"

section \<open>Auxiliary facts\<close>

lemma find_None_ids: "cid \<notin> set (map c_id cs) \<Longrightarrow> find (\<lambda>c. c_id c = cid) cs = None"
  by (induction cs) auto

lemma filter_other_ids: "cid \<notin> set (map c_id cs) \<Longrightarrow> filter (\<lambda>c. c_id c \<noteq> cid) cs = cs"
  by (induction cs) auto

lemma filter_same_ids: "cid \<notin> set (map c_id cs) \<Longrightarrow> filter (\<lambda>c. c_id c = cid) cs = []"
  by (induction cs) auto

lemma stream_lines_append:
  "snd (stream_lines xs) = None \<Longrightarrow>
   stream_lines (xs @ ys) = (fst (stream_lines xs) @ fst (stream_lines ys), snd (stream_lines ys))"
  by (induction xs rule: stream_lines.induct) (auto split: prod.splits)

lemma user_neq_assistant [simp]: "lit ''user'' \<noteq> lit ''assistant''" "lit ''assistant'' \<noteq> lit ''user''"
  by (simp_all add: lit_def)

lemmas trace_defs =
  content_frames_def error_frames_def done_frames_def assistant_writes_def net_calls_def
  db_errors_def

lemma encode_utf8_None: "list_all (\<lambda>c. \<not> is_surrogate c) s \<Longrightarrow> encode_utf8 s = None"
proof -
  assume "list_all (\<lambda>c. \<not> is_surrogate c) s"
  then have none: "dropWhile (\<lambda>c. \<not> is_surrogate c) s = []"
    by (simp add: list_all_iff)
  show ?thesis unfolding encode_utf8_def none by simp
qed

lemma encode_utf8_not_sqlite: "encode_utf8 s \<noteq> Some (SqliteError e)"
  by (simp add: encode_utf8_def Let_def split: list.splits)

lemma bind_params_not_sqlite: "bind_params ps \<noteq> Some (SqliteError e)"
  by (induction ps) (auto simp: encode_utf8_not_sqlite split: option.splits)

lemma bind_params_None: "bind_params ps = None \<Longrightarrow> s \<in> set ps \<Longrightarrow> encode_utf8 s = None"
  by (induction ps) (auto split: option.splits)

lemma db_execute_frame:
  assumes "db_execute ps w = (r, w1)"
  shows "w1 = w\<lparr> fault_n := Suc (fault_n w) \<rparr>"
  using assms by (auto simp: db_execute_def Let_def split: option.splits fault.splits)

lemma db_execute_None:
  assumes "db_execute ps w = (None, w1)"
  shows "bind_params ps = None" "fault_src w (fault_n w) = None"
  using assms by (auto simp: db_execute_def Let_def split: option.splits fault.splits)

lemma db_execute_encodable:
  assumes "bind_params ps = None" and "db_execute ps w = (Some x, w1)"
  shows "\<exists>e. x = SqliteError e"
  using assms by (auto simp: db_execute_def Let_def split: option.splits fault.splits)

subsection \<open>The relay loop\<close>

lemma relay_Cons_cases:
  assumes "relay (c # cs) raised acc = (evs, r)"
  obtains (err) e where "ch_error c = Some e" "evs = [Yield (ErrorFrame e)]" "r = Returned"
    | (skip) "ch_error c = None" "relay cs raised acc = (evs, r)"
    | (content) x evs' where "ch_error c = None" "relay cs raised (acc @ x) = (evs', r)"
        "evs = Yield (ContentFrame x) # evs'"
  using assms
  by (auto split: option.splits prod.splits)

lemma relay_Completed:
  "relay cs raised acc = (evs, Completed full) \<Longrightarrow>
     full = acc @ concat (content_frames evs) \<and> error_frames evs = [] \<and> done_frames evs = []
     \<and> assistant_writes evs = [] \<and> net_calls evs = [] \<and> db_errors evs = []
     \<and> (\<forall>c\<in>set cs. ch_error c = None) \<and> raised = None"
proof (induction cs arbitrary: acc evs)
  case Nil
  then show ?case by (simp add: trace_defs split: option.splits)
next
  case (Cons c cs)
  from Cons.prems show ?case
  proof (cases rule: relay_Cons_cases)
    case (err e)
    then show ?thesis by simp
  next
    case skip
    with Cons.IH [OF skip(2)] show ?thesis by simp
  next
    case (content x evs')
    with Cons.IH [OF content(2)] show ?thesis by (simp add: trace_defs)
  qed
qed

lemma relay_Returned:
  "relay cs raised acc = (evs, Returned) \<Longrightarrow>
     length (error_frames evs) = 1 \<and> done_frames evs = []
     \<and> assistant_writes evs = [] \<and> net_calls evs = [] \<and> db_errors evs = []
     \<and> (\<exists>c\<in>set cs. ch_error c \<noteq> None)"
proof (induction cs arbitrary: acc evs)
  case Nil
  then show ?case by (simp split: option.splits)
next
  case (Cons c cs)
  from Cons.prems show ?case
  proof (cases rule: relay_Cons_cases)
    case (err e)
    then show ?thesis by (simp add: trace_defs)
  next
    case skip
    with Cons.IH [OF skip(2)] show ?thesis by simp
  next
    case (content x evs')
    with Cons.IH [OF content(2)] show ?thesis by (simp add: trace_defs)
  qed
qed

lemma relay_Threw:
  "relay cs raised acc = (evs, Threw e) \<Longrightarrow>
     error_frames evs = [] \<and> done_frames evs = []
     \<and> assistant_writes evs = [] \<and> net_calls evs = [] \<and> db_errors evs = []
     \<and> (\<forall>c\<in>set cs. ch_error c = None) \<and> raised = Some e"
proof (induction cs arbitrary: acc evs)
  case Nil
  then show ?case by (simp add: trace_defs split: option.splits)
next
  case (Cons c cs)
  from Cons.prems show ?case
  proof (cases rule: relay_Cons_cases)
    case (err e')
    then show ?thesis by simp
  next
    case skip
    with Cons.IH [OF skip(2)] show ?thesis by simp
  next
    case (content x evs')
    with Cons.IH [OF content(2)] show ?thesis by (simp add: trace_defs)
  qed
qed

lemma relay_yields:
  "relay cs raised acc = (evs, r) \<Longrightarrow> ev \<in> set evs \<Longrightarrow> \<exists>f. ev = Yield f"
proof (induction cs arbitrary: acc evs)
  case Nil
  then show ?case by simp
next
  case (Cons c cs)
  from Cons.prems(1) show ?case
  proof (cases rule: relay_Cons_cases)
    case (err e)
    with Cons.prems(2) show ?thesis by simp
  next
    case skip
    with Cons.IH [OF skip(2)] Cons.prems(2) show ?thesis by simp
  next
    case (content x evs')
    with Cons.IH [OF content(2)] Cons.prems(2) show ?thesis by auto
  qed
qed

lemma relay_no_Persisted:
  "relay cs raised acc = (evs, r) \<Longrightarrow> Persisted i c ro t \<notin> set evs"
  using relay_yields by blast

lemma in_assistant_writes:
  "Persisted i c (lit ''assistant'') t \<in> set evs \<Longrightarrow> (i, t) \<in> set (assistant_writes evs)"
  by (induction evs) (auto simp: assistant_writes_def)

lemma in_db_errors: "DbError e \<in> set evs \<Longrightarrow> e \<in> set (db_errors evs)"
  by (induction evs) (auto simp: db_errors_def)

text \<open>The storage operations: what a result says about the tables and the clock.\<close>

subsection \<open>What the storage functions change\<close>

lemma get_chat_messages_frame:
  assumes "get_chat_messages cid w = (r, w1)"
  shows "chats w1 = chats w" "messages w1 = messages w" "clock_src w1 = clock_src w"
    "clock_n w1 = clock_n w"
proof -
  obtain r' w' where ex: "db_execute [cid] w = (r', w')"
    by (cases "db_execute [cid] w")
  with assms have "w1 = w'"
    by (auto simp: get_chat_messages_def split: option.splits exc.splits)
  with db_execute_frame [OF ex]
  show "chats w1 = chats w" "messages w1 = messages w" "clock_src w1 = clock_src w"
    "clock_n w1 = clock_n w"
    by simp_all
qed

lemma load_history_frame:
  assumes "load_history chat_id w = (r, w1)"
  shows "chats w1 = chats w" "messages w1 = messages w" "clock_src w1 = clock_src w"
    "clock_n w1 = clock_n w"
    "given_chat_id chat_id = None \<Longrightarrow> w1 = w \<and> r = Inr []"
proof -
  show "given_chat_id chat_id = None \<Longrightarrow> w1 = w \<and> r = Inr []"
    using assms by (simp add: load_history_def)
  have "chats w1 = chats w \<and> messages w1 = messages w \<and> clock_src w1 = clock_src w
      \<and> clock_n w1 = clock_n w"
  proof (cases "given_chat_id chat_id")
    case None
    with assms show ?thesis by (simp add: load_history_def)
  next
    case (Some cid)
    obtain r' w' where g: "get_chat_messages cid w = (r', w')"
      by (cases "get_chat_messages cid w")
    with assms Some have "w1 = w'"
      by (auto simp: load_history_def split: sum.splits)
    with get_chat_messages_frame [OF g] show ?thesis by simp
  qed
  then show "chats w1 = chats w" "messages w1 = messages w" "clock_src w1 = clock_src w"
    "clock_n w1 = clock_n w"
    by simp_all
qed

lemma create_chat_Inl:
  assumes "create_chat title model w = (Inl e, w1)"
  shows "chats w1 = chats w" "messages w1 = messages w"
proof -
  obtain r' w' where ex:
    "db_execute [uuid_src w (uuid_n w), title, model]
       (w\<lparr> uuid_n := Suc (uuid_n w), clock_n := Suc (clock_n w) \<rparr>) = (r', w')"
    by (cases "db_execute [uuid_src w (uuid_n w), title, model]
       (w\<lparr> uuid_n := Suc (uuid_n w), clock_n := Suc (clock_n w) \<rparr>)")
  with assms have "w1 = w'"
    by (auto simp: create_chat_def uuid4_def now_iso_def split: option.splits if_splits)
  with db_execute_frame [OF ex] show "chats w1 = chats w" "messages w1 = messages w"
    by simp_all
qed

lemma create_chat_Inr:
  assumes "create_chat title model w = (Inr cid, w1)"
  shows "cid \<notin> set (map c_id (chats w))"
    "chats w1 = chats w @
       [\<lparr> c_id = cid, c_title = title, c_model = model,
          c_created_at = clock_src w (clock_n w), c_updated_at = clock_src w (clock_n w) \<rparr>]"
    "messages w1 = messages w" "clock_src w1 = clock_src w" "clock_n w1 = Suc (clock_n w)"
proof -
  obtain r' w' where ex:
    "db_execute [uuid_src w (uuid_n w), title, model]
       (w\<lparr> uuid_n := Suc (uuid_n w), clock_n := Suc (clock_n w) \<rparr>) = (r', w')"
    by (cases "db_execute [uuid_src w (uuid_n w), title, model]
       (w\<lparr> uuid_n := Suc (uuid_n w), clock_n := Suc (clock_n w) \<rparr>)")
  note fr = db_execute_frame [OF ex]
  from assms ex have "cid \<notin> set (map c_id (chats w')) \<and>
      w1 = w'\<lparr> chats := chats w' @
        [\<lparr> c_id = cid, c_title = title, c_model = model,
           c_created_at = clock_src w (clock_n w), c_updated_at = clock_src w (clock_n w) \<rparr>] \<rparr>"
    by (auto simp: create_chat_def uuid4_def now_iso_def split: option.splits if_splits)
  then show "cid \<notin> set (map c_id (chats w))"
    "chats w1 = chats w @
       [\<lparr> c_id = cid, c_title = title, c_model = model,
          c_created_at = clock_src w (clock_n w), c_updated_at = clock_src w (clock_n w) \<rparr>]"
    "messages w1 = messages w" "clock_src w1 = clock_src w" "clock_n w1 = Suc (clock_n w)"
    by (simp_all add: fr)
qed

lemma update_chat_timestamp_frame:
  assumes "update_chat_timestamp cid w = (r, w1)"
  shows "messages w1 = messages w" "clock_src w1 = clock_src w" "clock_n w1 = Suc (clock_n w)"
    "\<exists>f. chats w1 = map f (chats w)
       \<and> (\<forall>c. c_id (f c) = c_id c \<and> c_title (f c) = c_title c \<and> c_model (f c) = c_model c
              \<and> (c_id c \<noteq> cid \<longrightarrow> f c = c))"
proof -
  let ?w0 = "w\<lparr> clock_n := Suc (clock_n w) \<rparr>"
  obtain r' w' where ex: "db_execute [cid] ?w0 = (r', w')"
    by (cases "db_execute [cid] ?w0")
  note fr = db_execute_frame [OF ex]
  let ?f = "\<lambda>c. if c_id c = cid then c\<lparr> c_updated_at := clock_src w (clock_n w) \<rparr> else c"
  from assms ex have cases: "w1 = w' \<or> w1 = w'\<lparr> chats := map ?f (chats w') \<rparr>"
    by (auto simp: update_chat_timestamp_def now_iso_def split: option.splits exc.splits)
  then show "messages w1 = messages w" "clock_src w1 = clock_src w"
    "clock_n w1 = Suc (clock_n w)"
    by (auto simp: fr)
  from cases show "\<exists>f. chats w1 = map f (chats w)
       \<and> (\<forall>c. c_id (f c) = c_id c \<and> c_title (f c) = c_title c \<and> c_model (f c) = c_model c
              \<and> (c_id c \<noteq> cid \<longrightarrow> f c = c))"
  proof
    assume "w1 = w'"
    then have "chats w1 = map (\<lambda>c. c) (chats w)" by (simp add: fr)
    then show ?thesis by (intro exI [of _ "\<lambda>c. c"]) simp
  next
    assume "w1 = w'\<lparr> chats := map ?f (chats w') \<rparr>"
    then have "chats w1 = map ?f (chats w)" by (simp add: fr)
    then show ?thesis by (intro exI [of _ ?f]) simp
  qed
qed

lemma update_chat_timestamp_encodable:
  assumes "encode_utf8 cid = None"
  shows "fst (update_chat_timestamp cid w) = None"
proof -
  let ?w0 = "w\<lparr> clock_n := Suc (clock_n w) \<rparr>"
  obtain r' w' where ex: "db_execute [cid] ?w0 = (r', w')"
    by (cases "db_execute [cid] ?w0")
  have bind: "bind_params [cid] = None" using assms by simp
  show ?thesis
  proof (cases r')
    case None
    with ex show ?thesis by (simp add: update_chat_timestamp_def now_iso_def)
  next
    case (Some x)
    with db_execute_encodable [OF bind] ex obtain e where "x = SqliteError e" by blast
    with Some ex show ?thesis by (simp add: update_chat_timestamp_def now_iso_def)
  qed
qed

lemma add_message_cases:
  assumes "add_message cid role content w = (r, w1)"
  obtains (failed) e where "r = Inl e" "chats w1 = chats w" "messages w1 = messages w"
    | (stored) "r = Inr (uuid_src w (uuid_n w))" "cid \<in> set (map c_id (chats w))"
        "messages w1 = messages w @
           [\<lparr> m_id = uuid_src w (uuid_n w), m_chat_id = cid, m_role = role, m_content = content,
              m_timestamp = clock_src w (clock_n w) \<rparr>]"
        "clock_src w1 = clock_src w" "clock_n w1 = Suc (Suc (clock_n w))"
        "\<exists>f. chats w1 = map f (chats w)
           \<and> (\<forall>c. c_id (f c) = c_id c \<and> c_title (f c) = c_title c \<and> c_model (f c) = c_model c
                  \<and> (c_id c \<noteq> cid \<longrightarrow> f c = c))"
proof -
  let ?mid = "uuid_src w (uuid_n w)"
  let ?w2 = "w\<lparr> uuid_n := Suc (uuid_n w), clock_n := Suc (clock_n w) \<rparr>"
  obtain r' w3 where ex: "db_execute [?mid, cid, role, content] ?w2 = (r', w3)"
    by (cases "db_execute [?mid, cid, role, content] ?w2")
  note fr = db_execute_frame [OF ex]
  let ?row = "\<lparr> m_id = ?mid, m_chat_id = cid, m_role = role, m_content = content,
                m_timestamp = clock_src w (clock_n w) \<rparr>"
  let ?w3' = "w3\<lparr> messages := messages w3 @ [?row] \<rparr>"
  have unfold: "add_message cid role content w =
      (case r' of
         Some x \<Rightarrow> (Inl x, w3)
       | None \<Rightarrow>
           if ?mid \<in> set (map m_id (messages w3))
           then (Inl (SqliteError (lit ''UNIQUE constraint failed: messages.id'')), w3)
           else if cid \<notin> set (map c_id (chats w3))
           then (Inl (SqliteError (lit ''FOREIGN KEY constraint failed'')), w3)
           else (case update_chat_timestamp cid ?w3' of
                   (Some x, w4) \<Rightarrow> (Inl x, w4)
                 | (None, w4) \<Rightarrow> (Inr ?mid, w4)))"
    by (cases r') (simp_all add: add_message_def uuid4_def now_iso_def ex)
  show ?thesis
  proof (cases r')
    case (Some x)
    with assms unfold have "r = Inl x" "w1 = w3" by simp_all
    then show ?thesis using fr by (intro failed [of x]) simp_all
  next
    case None
    note ok = db_execute_None [OF ex [unfolded None]]
    have enc: "encode_utf8 cid = None"
      using bind_params_None [OF ok(1), of cid] by simp
    show ?thesis
    proof (cases "?mid \<in> set (map m_id (messages w3)) \<or> cid \<notin> set (map c_id (chats w3))")
      case True
      with assms unfold None obtain e where "r = Inl e" "w1 = w3"
        by (auto split: if_splits)
      then show ?thesis using fr by (intro failed [of e]) simp_all
    next
      case False
      obtain u w4 where up: "update_chat_timestamp cid ?w3' = (u, w4)"
        by (cases "update_chat_timestamp cid ?w3'")
      with update_chat_timestamp_encodable [OF enc, of ?w3'] have u: "u = None" by simp
      with assms unfold None False up have res: "r = Inr ?mid" "w1 = w4" by simp_all
      note t = update_chat_timestamp_frame [OF up]
      from False fr have "cid \<in> set (map c_id (chats w))" by simp
      moreover have "messages w1 = messages w @ [?row]"
        using t(1) res fr by simp
      moreover have "clock_src w1 = clock_src w" "clock_n w1 = Suc (Suc (clock_n w))"
        using t(2,3) res fr by simp_all
      moreover have "\<exists>f. chats w1 = map f (chats w)
           \<and> (\<forall>c. c_id (f c) = c_id c \<and> c_title (f c) = c_title c \<and> c_model (f c) = c_model c
                  \<and> (c_id c \<noteq> cid \<longrightarrow> f c = c))"
        using t(4) res fr by simp
      ultimately show ?thesis using res(1) by (intro stored)
    qed
  qed
qed

lemma add_message_Inl:
  assumes "add_message cid role content w = (Inl e, w1)"
  shows "chats w1 = chats w" "messages w1 = messages w"
  using assms by (cases rule: add_message_cases; simp)+

lemma add_message_Inr:
  assumes "add_message cid role content w = (Inr mid, w1)"
  shows "cid \<in> set (map c_id (chats w))"
    "messages w1 = messages w @
       [\<lparr> m_id = mid, m_chat_id = cid, m_role = role, m_content = content,
          m_timestamp = clock_src w (clock_n w) \<rparr>]"
    "clock_src w1 = clock_src w" "clock_n w1 = Suc (Suc (clock_n w))"
    "\<exists>f. chats w1 = map f (chats w)
       \<and> (\<forall>c. c_id (f c) = c_id c \<and> c_title (f c) = c_title c \<and> c_model (f c) = c_model c
              \<and> (c_id c \<noteq> cid \<longrightarrow> f c = c))"
  using assms by (cases rule: add_message_cases; simp)+

text \<open>The handlers of the streaming turn, case by case.\<close>

subsection \<open>The runs of the streaming handler\<close>

lemma stream_and_store_cases:
  assumes "stream_and_store cf model message cid history temperature max_tokens tr w = (w1, evs)"
  obtains (returned) q fr where "relay (fst (stream_chunks tr)) (snd (stream_chunks tr)) []
        = (fr, Returned)"
      "evs = Net q # fr" "w1 = w"
    | (threw) q fr e where "relay (fst (stream_chunks tr)) (snd (stream_chunks tr)) []
        = (fr, Threw e)"
      "evs = Net q # fr @ [Yield (ErrorFrame (str_exc e))]" "w1 = w"
    | (dberr) q fr full e where "relay (fst (stream_chunks tr)) (snd (stream_chunks tr)) []
        = (fr, Completed full)"
        "add_message cid (lit ''assistant'') full w = (Inl e, w1)"
        "evs = Net q # fr @ [DbError e, Yield (ErrorFrame (str_exc e))]"
    | (stored) q fr full aid where "relay (fst (stream_chunks tr)) (snd (stream_chunks tr)) []
        = (fr, Completed full)"
        "add_message cid (lit ''assistant'') full w = (Inr aid, w1)"
        "evs = Net q # fr @
           [Persisted aid cid (lit ''assistant'') full, Yield (DoneFrame aid)]"
proof -
  obtain cs x where ch: "stream_chunks tr = (cs, x)" by (cases "stream_chunks tr")
  obtain fr r where rl: "relay cs x [] = (fr, r)" by (cases "relay cs x []")
  let ?q = "request_body cf model message history temperature max_tokens True"
  show ?thesis
  proof (cases r)
    case Returned
    with assms ch rl have "evs = Net ?q # fr" "w1 = w"
      by (simp_all add: stream_and_store_def ollama_chat_stream_def)
    with rl ch Returned show ?thesis by (intro returned [of fr ?q]) simp_all
  next
    case (Threw e)
    with assms ch rl have "evs = Net ?q # fr @ [Yield (ErrorFrame (str_exc e))]" "w1 = w"
      by (simp_all add: stream_and_store_def ollama_chat_stream_def)
    with rl ch Threw show ?thesis by (intro threw [of fr e ?q]) simp_all
  next
    case (Completed full)
    obtain a w' where add: "add_message cid (lit ''assistant'') full w = (a, w')"
      by (cases "add_message cid (lit ''assistant'') full w")
    show ?thesis
    proof (cases a)
      case (Inl e)
      with assms ch rl Completed add
      have "evs = Net ?q # fr @ [DbError e, Yield (ErrorFrame (str_exc e))]" "w1 = w'"
        by (simp_all add: stream_and_store_def ollama_chat_stream_def)
      with rl ch Completed add Inl show ?thesis by (intro dberr [of fr full e ?q]) simp_all
    next
      case (Inr aid)
      with assms ch rl Completed add
      have "evs = Net ?q # fr @
          [Persisted aid cid (lit ''assistant'') full, Yield (DoneFrame aid)]" "w1 = w'"
        by (simp_all add: stream_and_store_def ollama_chat_stream_def)
      with rl ch Completed add Inr show ?thesis by (intro stored [of fr full aid ?q]) simp_all
    qed
  qed
qed

lemma generate_cases:
  assumes "generate cf model message chat_id history temperature max_tokens tr w
             = (w', evs, raised)"
  obtains (create_failed) e where "given_chat_id chat_id = None"
      "create_chat (chat_title message) model w = (Inl e, w')"
      "evs = [DbError e]" "raised = Some e"
    | (first_user_failed) cid w1 e where "given_chat_id chat_id = None"
        "create_chat (chat_title message) model w = (Inr cid, w1)"
        "add_message cid (lit ''user'') message w1 = (Inl e, w')"
        "evs = [Created cid (chat_title message) model, DbError e]" "raised = Some e"
    | (first) cid w1 uid w2 evs' where "given_chat_id chat_id = None"
        "create_chat (chat_title message) model w = (Inr cid, w1)"
        "add_message cid (lit ''user'') message w1 = (Inr uid, w2)"
        "stream_and_store cf model message cid history temperature max_tokens tr w2 = (w', evs')"
        "evs = [Created cid (chat_title message) model,
                Persisted uid cid (lit ''user'') message, Yield (ChatIdFrame cid)] @ evs'"
        "raised = None"
    | (user_failed) cid e where "given_chat_id chat_id = Some cid"
        "add_message cid (lit ''user'') message w = (Inl e, w')"
        "evs = [DbError e]" "raised = Some e"
    | (existing) cid uid w1 evs' where "given_chat_id chat_id = Some cid"
        "add_message cid (lit ''user'') message w = (Inr uid, w1)"
        "stream_and_store cf model message cid history temperature max_tokens tr w1 = (w', evs')"
        "evs = Persisted uid cid (lit ''user'') message # evs'" "raised = None"
  using assms
  by (auto simp: generate_def Let_def split: prod.splits option.splits sum.splits)

lemma stream_chat_cases:
  assumes "stream_chat cf data tr w = (reply, w', evs)"
  obtains (rejected) "evs = []" "w' = w"
      "reply = StreamRejected 400 (lit ''Modell und Nachricht sind erforderlich'')"
    | (unhandled) x where "evs = []" "reply = StreamUnhandled x"
    | (run) d model message history w1 raised where "data = Some d"
        "rq_model d = Some model" "rq_message d = Some message"
        "load_history (rq_chat_id d) w = (Inr history, w1)"
        "generate cf model message (rq_chat_id d) history (rq_temperature d)
           (rq_max_tokens d) tr w1 = (w', evs, raised)"
        "reply = EventStream raised"
  using assms
  by (auto simp: stream_chat_def split: prod.splits option.splits sum.splits)

subsection \<open>Running the handlers on the concrete inputs\<close>

lemma encode_utf8_ascii: "\<forall>c\<in>set s. c < 128 \<Longrightarrow> encode_utf8 s = None"
  by (rule encode_utf8_None) (auto simp: list_all_iff is_surrogate_def)

lemmas run_defs =
  stream_chat_def load_history_def given_chat_id_def generate_def create_chat_def
  add_message_def update_chat_timestamp_def uuid4_def now_iso_def db_execute_def
  encode_utf8_ascii
  stream_and_store_def ollama_chat_stream_def stream_chunks_def request_body_def
  model_config_def MODEL_PARAMS_def default_config_def chat_title_def
  hello_request_def fresh_world_def content_chunk_def error_dict_def str_nat.simps Let_def

lemma hi_there_trace:
  "snd (snd (stream_chat default_config (Some hello_request) hi_there fresh_world)) =
     [Created (lit ''uuid-0'') (lit ''Hello'') (lit ''llama3''),
      Persisted (lit ''uuid-1'') (lit ''uuid-0'') (lit ''user'') (lit ''Hello''),
      Yield (ChatIdFrame (lit ''uuid-0'')),
      Net hello_llama,
      Yield (ContentFrame (lit ''Hi'')),
      Yield (ContentFrame (lit '' there'')),
      Persisted (lit ''uuid-2'') (lit ''uuid-0'') (lit ''assistant'') (lit ''Hi there''),
      Yield (DoneFrame (lit ''uuid-2''))]"
  by (simp add: run_defs hi_there_def hello_llama_def lit_def)

lemma hi_there_late_fault_trace:
  "snd (snd (stream_chat default_config (Some hello_request) hi_there late_fault_world)) =
     [Created (lit ''uuid-0'') (lit ''Hello'') (lit ''llama3''),
      Persisted (lit ''uuid-1'') (lit ''uuid-0'') (lit ''user'') (lit ''Hello''),
      Yield (ChatIdFrame (lit ''uuid-0'')),
      Net hello_llama,
      Yield (ContentFrame (lit ''Hi'')),
      Yield (ContentFrame (lit '' there'')),
      DbError (SqliteError (lit ''disk I/O error'')),
      Yield (ErrorFrame (lit ''disk I/O error''))]"
  by (simp add: run_defs hi_there_def late_fault_world_def hello_llama_def lit_def)

lemma hi_not_utf8_trace:
  "snd (snd (stream_chat default_config (Some hello_request) hi_not_utf8 fresh_world)) =
     [Created (lit ''uuid-0'') (lit ''Hello'') (lit ''llama3''),
      Persisted (lit ''uuid-1'') (lit ''uuid-0'') (lit ''user'') (lit ''Hello''),
      Yield (ChatIdFrame (lit ''uuid-0'')),
      Net hello_llama,
      Yield (ContentFrame (lit ''Hi'')),
      Yield (ErrorFrame (lit ''invalid start byte''))]"
  by (simp add: run_defs hi_not_utf8_def hello_llama_def lit_def)

lemma hi_broken_trace:
  "snd (snd (stream_chat default_config (Some hello_request) hi_broken fresh_world)) =
     [Created (lit ''uuid-0'') (lit ''Hello'') (lit ''llama3''),
      Persisted (lit ''uuid-1'') (lit ''uuid-0'') (lit ''user'') (lit ''Hello''),
      Yield (ChatIdFrame (lit ''uuid-0'')),
      Net hello_llama,
      Yield (ContentFrame (lit ''Hi'')),
      Yield (ErrorFrame (lit ''Verbindungsfehler bei Stream-Anfrage: connection reset''))]"
  by (simp add: run_defs hi_broken_def hello_llama_def lit_def)

subsection \<open>The runs of the blocking handler\<close>



lemmas chat_run_defs =
  run_defs chat_def chat_turn_def ollama_chat_def store_turn_def store_messages_def
  warning_reply_def response_content_def hi_response_def

lemma map_touch_other:
  assumes "\<forall>c. c_id c \<noteq> cid \<longrightarrow> f c = c" and "cid \<notin> set (map c_id cs)"
  shows "map f cs = cs"
  using assms by (induction cs) auto

lemma chat_title_50:
  "chat_title message = (if 50 < length message then take 50 message @ [46, 46, 46] else message)"
  by (simp add: chat_title_def lit_def)

lemma turn_stored:
  assumes create: "create_chat (chat_title message) model w = (Inr cid, w1)"
    and user: "add_message cid (lit ''user'') message w1 = (Inr uid, w2)"
    and asst: "add_message cid (lit ''assistant'') txt w2 = (Inr mid, w3)"
    and fk: "fk_ok w" and clock: "mono (clock_src w)"
  shows "first_turn_stored w w3 cid model message txt"
proof -
  note c = create_chat_Inr [OF create]
  note u = add_message_Inr [OF user]
  note a = add_message_Inr [OF asst]
  let ?row = "\<lparr> c_id = cid, c_title = chat_title message, c_model = model,
          c_created_at = clock_src w (clock_n w), c_updated_at = clock_src w (clock_n w) \<rparr>"
  from u(5) obtain f where f: "chats w2 = map f (chats w1)"
    "\<forall>c. c_id (f c) = c_id c \<and> c_title (f c) = c_title c \<and> c_model (f c) = c_model c
        \<and> (c_id c \<noteq> cid \<longrightarrow> f c = c)"
    by blast
  from a(5) obtain g where g: "chats w3 = map g (chats w2)"
    "\<forall>c. c_id (g c) = c_id c \<and> c_title (g c) = c_title c \<and> c_model (g c) = c_model c
        \<and> (c_id c \<noteq> cid \<longrightarrow> g c = c)"
    by blast
  have "map f (chats w) = chats w"
    using f(2) c(1) by (intro map_touch_other [of cid]) auto
  moreover have "map g (chats w) = chats w"
    using g(2) c(1) by (intro map_touch_other [of cid]) auto
  ultimately have old: "map f (chats w) = chats w" "map g (chats w) = chats w"
    by simp_all
  define r where "r = g (f ?row)"
  have chats3: "chats w3 = chats w @ [r]"
    by (simp add: r_def g(1) f(1) c(2) old)
  have row: "c_id r = cid" "c_title r = chat_title message" "c_model r = model"
    using f(2) g(2) by (simp_all add: r_def)
  have title: "if 50 < length message
      then c_title r = take 50 message @ [46, 46, 46]
      else c_title r = message"
    by (simp add: row(2) chat_title_50)
  have none: "filter (\<lambda>m. m_chat_id m = cid) (messages w) = []"
    using fk c(1) by (auto simp: fk_ok_def list_all_iff filter_empty_conv)
  let ?um = "\<lparr> m_id = uid, m_chat_id = cid, m_role = lit ''user'', m_content = message,
          m_timestamp = clock_src w1 (clock_n w1) \<rparr>"
  let ?am = "\<lparr> m_id = mid, m_chat_id = cid, m_role = lit ''assistant'', m_content = txt,
          m_timestamp = clock_src w2 (clock_n w2) \<rparr>"
  have msgs: "messages w3 = messages w @ [?um, ?am]"
    by (simp add: a(2) u(2) c(3))
  have le: "clock_src w1 (clock_n w1) \<le> clock_src w2 (clock_n w2)"
    using clock by (simp add: u(3) u(4) c(4) monoD)
  have sel: "select_messages w3 cid = [?um, ?am]"
    using le by (simp add: select_messages_def msgs none)
  have "\<exists>r. chats w3 = chats w @ [r] \<and> c_id r = cid \<and> c_model r = model
      \<and> (if 50 < length message then c_title r = take 50 message @ [46, 46, 46]
          else c_title r = message)"
    using chats3 row(1,3) title by blast
  then show ?thesis
    unfolding first_turn_stored_def
    using c(1) sel by simp
qed

lemma store_messages_Ok:
  assumes "store_messages cid message response w = (ChatOk c txt mid, w2, evs)"
  obtains uid w1 where "add_message cid (lit ''user'') message w = (Inr uid, w1)"
    "add_message cid (lit ''assistant'') txt w1 = (Inr mid, w2)" "c = cid"
proof (cases "add_message cid (lit ''user'') message w")
  case user: (Pair r w1)
  show ?thesis
  proof (cases r)
    case (Inl e)
    with assms user show ?thesis
      by (simp add: store_messages_def warning_reply_def)
  next
    case u: (Inr uid)
    show ?thesis
    proof (cases "add_message cid (lit ''assistant'') (response_content response) w1")
      case asst: (Pair r' w3)
      show ?thesis
      proof (cases r')
        case (Inl e)
        with assms user u asst show ?thesis
          by (simp add: store_messages_def warning_reply_def Let_def)
      next
        case (Inr aid)
        with assms user u asst
        have "c = cid" "txt = response_content response" "mid = aid" "w3 = w2"
          by (simp_all add: store_messages_def Let_def)
        with user u asst Inr that show ?thesis by simp
      qed
    qed
  qed
qed

lemma store_turn_Ok_first:
  assumes "store_turn model message chat_id response w = (ChatOk c txt mid, w3, evs)"
    and "given_chat_id chat_id = None"
  obtains w1 uid w2 where "create_chat (chat_title message) model w = (Inr c, w1)"
    "add_message c (lit ''user'') message w1 = (Inr uid, w2)"
    "add_message c (lit ''assistant'') txt w2 = (Inr mid, w3)"
proof (cases "create_chat (chat_title message) model w")
  case (Pair r w1)
  show ?thesis
  proof (cases r)
    case (Inl e)
    with assms Pair show ?thesis
      by (simp add: store_turn_def Let_def warning_reply_def)
  next
    case (Inr new_chat_id)
    obtain reply' w' evs' where
      sm: "store_messages new_chat_id message response w1 = (reply', w', evs')"
      by (cases "store_messages new_chat_id message response w1")
    with assms Pair Inr have "reply' = ChatOk c txt mid" "w' = w3"
      by (simp_all add: store_turn_def Let_def)
    with sm have "store_messages new_chat_id message response w1 = (ChatOk c txt mid, w3, evs')"
      by simp
    then show ?thesis
      using Pair Inr that by (elim store_messages_Ok) simp
  qed
qed

lemma chat_Ok_first:
  assumes run: "chat cf (Some d) net w = (ChatOk cid txt mid, w', evs)"
    and first: "given_chat_id (rq_chat_id d) = None"
    and fields: "rq_model d = Some model" "rq_message d = Some message"
  obtains w1 uid w2 where "create_chat (chat_title message) model w = (Inr cid, w1)"
    "add_message cid (lit ''user'') message w1 = (Inr uid, w2)"
    "add_message cid (lit ''assistant'') txt w2 = (Inr mid, w')"
proof -
  have hist: "load_history (rq_chat_id d) w = (Inr [], w)"
    using first by (simp add: load_history_def)
  obtain req response where
    up: "ollama_chat cf model message [] (rq_temperature d) (rq_max_tokens d) net = (req, response)"
    by (cases "ollama_chat cf model message [] (rq_temperature d) (rq_max_tokens d) net")
  obtain reply' w3 evs' where
    st: "store_turn model message (rq_chat_id d) response w = (reply', w3, evs')"
    by (cases "store_turn model message (rq_chat_id d) response w")
  from run fields hist up st have "reply' = ChatOk cid txt mid" "w3 = w'"
    by (auto simp: chat_def chat_turn_def split: option.splits)
  with st have "store_turn model message (rq_chat_id d) response w = (ChatOk cid txt mid, w', evs')"
    by simp
  from this first show ?thesis
    by (rule store_turn_Ok_first) (rule that)
qed

subsection \<open>The storage operations keep the foreign key\<close>

lemma fk_ok_ids:
  assumes "fk_ok w" and "set (messages w') \<subseteq> set (messages w)"
    and "set (map c_id (chats w)) \<subseteq> set (map c_id (chats w'))"
  shows "fk_ok w'"
  using assms unfolding fk_ok_def list_all_iff by blast

lemma fk_ok_create_chat: "fk_ok w \<Longrightarrow> fk_ok (snd (create_chat title model w))"
proof (cases "create_chat title model w")
  case (Pair r w1)
  assume fk: "fk_ok w"
  show ?thesis
  proof (cases r)
    case (Inl e)
    with Pair have eq: "create_chat title model w = (Inl e, w1)" by simp
    have "fk_ok w1"
      by (rule fk_ok_ids [OF fk]) (simp_all add: create_chat_Inl [OF eq])
    with Pair show ?thesis by simp
  next
    case (Inr cid)
    with Pair have eq: "create_chat title model w = (Inr cid, w1)" by simp
    have "fk_ok w1"
      by (rule fk_ok_ids [OF fk]) (auto simp: create_chat_Inr(2,3) [OF eq])
    with Pair show ?thesis by simp
  qed
qed

lemma fk_ok_add_message: "fk_ok w \<Longrightarrow> fk_ok (snd (add_message cid role content w))"
proof (cases "add_message cid role content w")
  case (Pair r w1)
  assume fk: "fk_ok w"
  show ?thesis
  proof (cases r)
    case (Inl e)
    with Pair have eq: "add_message cid role content w = (Inl e, w1)" by simp
    have "fk_ok w1"
      by (rule fk_ok_ids [OF fk]) (simp_all add: add_message_Inl [OF eq])
    with Pair show ?thesis by simp
  next
    case (Inr mid)
    with Pair have ok: "add_message cid role content w = (Inr mid, w1)" by simp
    from add_message_Inr(5) [OF ok] have ids: "map c_id (chats w1) = map c_id (chats w)"
      by auto
    have "fk_ok w1"
      using fk add_message_Inr(1) [OF ok]
      by (simp add: ids add_message_Inr(2) [OF ok] fk_ok_def)
    with Pair show ?thesis by simp
  qed
qed

lemma fk_ok_delete_chat: "fk_ok w \<Longrightarrow> fk_ok (snd (delete_chat cid w))"
proof (cases "db_execute [cid] w")
  case (Pair r w1)
  assume fk: "fk_ok w"
  from db_execute_frame [OF Pair] have same: "chats w1 = chats w" "messages w1 = messages w"
    by simp_all
  show ?thesis
  proof (cases r)
    case None
    with Pair same fk show ?thesis
      by (auto simp: delete_chat_def fk_ok_def list_all_iff)
  next
    case (Some x)
    with Pair same fk show ?thesis
      by (cases x) (simp_all add: delete_chat_def fk_ok_def)
  qed
qed

lemma hi_response_reply:
  "fst (chat default_config (Some long_request) hi_response fresh_world)
     = ChatOk (lit ''uuid-0'') (lit ''Hi there'') (lit ''uuid-2'')"
  by (simp add: chat_run_defs long_request_def lit_def)

lemma long_stream_trace:
  "snd (snd (stream_chat default_config (Some long_request) hi_there fresh_world)) =
     [Created (lit ''uuid-0'') (replicate 50 97 @ lit ''...'') (lit ''llama3''),
      Persisted (lit ''uuid-1'') (lit ''uuid-0'') (lit ''user'') (replicate 60 97),
      Yield (ChatIdFrame (lit ''uuid-0'')),
      Net (hello_llama\<lparr> q_messages := [(lit ''user'', replicate 60 97)] \<rparr>),
      Yield (ContentFrame (lit ''Hi'')),
      Yield (ContentFrame (lit '' there'')),
      Persisted (lit ''uuid-2'') (lit ''uuid-0'') (lit ''assistant'') (lit ''Hi there''),
      Yield (DoneFrame (lit ''uuid-2''))]"
  by (simp add: run_defs long_request_def hi_there_def hello_llama_def lit_def)

section \<open>The streaming client and a line that does not parse\<close>

text \<open>
  Claim C2, as amended.  \<open>ollama_client.py\<close> loads as shipped, and this is a
  statement about \<open>OllamaClient.chat_stream\<close> as it is.  Take a body, answered
  with status 200, in which no line before the one considered makes \<open>json.loads\<close>
  raise an exception other than \<open>JSONDecodeError\<close>.  A line that makes
  \<open>json.loads\<close> raise \<open>JSONDecodeError\<close> yields one error chunk at its place
  in the sequence, and the sequence is not closed: the chunks of the lines before it
  come first and the chunks of the lines after it follow, whatever they are.  A line
  that makes \<open>json.loads\<close> raise an exception of another class (bytes that are
  not UTF-8) yields no chunk at all: the sequence holds the chunks of the lines before
  it and ends with that exception, which leaves the generator.
\<close>

theorem bad_line_in_place:
  assumes "snd (stream_lines pre) = None"
  shows "snd (ollama_chat_stream cf model message history temperature max_tokens
                (StreamResp 200 (pre @ BadLine e # post) broken))
         = (fst (stream_chunks (StreamResp 200 pre None))
              @ error_dict (lit ''Fehler beim Parsen der Antwort: '' @ e)
              # fst (stream_chunks (StreamResp 200 post broken)),
            snd (stream_chunks (StreamResp 200 post broken)))
       \<and> snd (ollama_chat_stream cf model message history temperature max_tokens
                (StreamResp 200 (pre @ RaisingLine x # post) broken))
         = (fst (stream_chunks (StreamResp 200 pre None)), Some (LoadsError x))"
  using assms
  by (cases "stream_lines pre"; cases "stream_lines post")
     (auto simp: ollama_chat_stream_def stream_chunks_def stream_lines_append
        split: option.splits)

text \<open>
  An instance: a content chunk, a line that does not parse, a content chunk.  With
  \<open>JSONDecodeError\<close> the second content chunk still follows the error chunk;
  with an exception of another class the sequence ends after the first chunk.
\<close>

theorem bad_line_in_place_witness:
  "snd (stream_lines [GoodLine (content_chunk (lit ''Hi''))]) = None
   \<and> snd (ollama_chat_stream default_config (lit ''llama3'') (lit ''Hello'') [] None None
            (StreamResp 200
               [GoodLine (content_chunk (lit ''Hi'')), BadLine (lit ''x''),
                GoodLine (content_chunk (lit '' there''))] None))
       = ([content_chunk (lit ''Hi''),
           error_dict (lit ''Fehler beim Parsen der Antwort: '' @ lit ''x''),
           content_chunk (lit '' there'')], None)
   \<and> snd (ollama_chat_stream default_config (lit ''llama3'') (lit ''Hello'') [] None None
            (StreamResp 200
               [GoodLine (content_chunk (lit ''Hi'')), RaisingLine (lit ''x''),
                GoodLine (content_chunk (lit '' there''))] None))
       = ([content_chunk (lit ''Hi'')], Some (LoadsError (lit ''x'')))"
  using bad_line_in_place [of "[GoodLine (content_chunk (lit ''Hi''))]" default_config
      "lit ''llama3''" "lit ''Hello''" "[]" None None "lit ''x''"
      "[GoodLine (content_chunk (lit '' there''))]" None "lit ''x''"]
  by (simp add: stream_chunks_def)

text \<open>
  Claim C2 as stated fails: with a body of three lines, the first and the last of
  which make \<open>json.loads\<close> raise \<open>JSONDecodeError\<close>, the client yields an
  error chunk, then a content chunk, then a second error chunk, and ends normally.
\<close>

theorem bad_line_not_final:
  "snd (ollama_chat_stream default_config (lit ''llama3'') (lit ''Hello'') [] None None
          (StreamResp 200
             [BadLine (lit ''x''), GoodLine (content_chunk (lit ''Hi'')), BadLine (lit ''y'')]
             None))
   = ([error_dict (lit ''Fehler beim Parsen der Antwort: '' @ lit ''x''),
       content_chunk (lit ''Hi''),
       error_dict (lit ''Fehler beim Parsen der Antwort: '' @ lit ''y'')], None)"
  by (simp add: ollama_chat_stream_def stream_chunks_def)

section \<open>The test of the required fields\<close>

text \<open>
  Claim C3, as amended; a statement about the handlers \<open>chat\<close> and
  \<open>stream_chat\<close> of the repaired \<open>server.py\<close> (see the section on what is
  modelled), not about a run of the file as shipped.  A chat turn, blocking or
  streaming, whose body is absent, or is a JSON object without the key \<open>model\<close> or
  without the key \<open>message\<close> (the empty object included), is answered with status
  400 and the validation message; nothing is sent to the upstream server, and storage
  is neither read nor written.  Bodies that are JSON values of another kind are
  outside the type \<open>request\<close> and outside this statement.
\<close>

theorem missing_field_rejected:
  assumes "data = None \<or> (\<exists>d. data = Some d \<and> (rq_model d = None \<or> rq_message d = None))"
  shows "chat cf data net w
           = (ChatError 400 (lit ''Modell und Nachricht sind erforderlich''), w, [])
       \<and> stream_chat cf data tr w
           = (StreamRejected 400 (lit ''Modell und Nachricht sind erforderlich''), w, [])"
  using assms by (auto simp: chat_def stream_chat_def split: option.splits)

text \<open>
  An instance: the request of the examples without its key \<open>model\<close>.
\<close>

theorem missing_field_rejected_witness:
  "chat default_config (Some (hello_request\<lparr> rq_model := None \<rparr>)) (HttpFail []) fresh_world
     = (ChatError 400 (lit ''Modell und Nachricht sind erforderlich''), fresh_world, [])
   \<and> stream_chat default_config (Some (hello_request\<lparr> rq_model := None \<rparr>)) (ConnectFail [])
       fresh_world
     = (StreamRejected 400 (lit ''Modell und Nachricht sind erforderlich''), fresh_world, [])"
  using missing_field_rejected [of "Some (hello_request\<lparr> rq_model := None \<rparr>)"
      default_config "HttpFail []" fresh_world "ConnectFail []"]
  by (simp add: hello_request_def)

text \<open>
  Claim C3 as stated fails for empty strings: a turn whose \<open>model\<close> and
  \<open>message\<close> are both \<open>""\<close> passes the test, which reads no value, and a
  request with these values is sent to the upstream server, by the blocking handler
  and by the streaming one; the blocking answer is the status 500 of the upstream
  failure, not a rejection.
\<close>

theorem empty_field_not_rejected:
  "fst (chat default_config (Some (hello_request\<lparr> rq_model := Some [], rq_message := Some [] \<rparr>))
         (HttpFail (lit ''refused'')) fresh_world)
     = ChatError 500 (lit ''Verbindungsfehler bei Chat-Anfrage: '' @ lit ''refused'')
   \<and> net_calls (snd (snd (chat default_config
         (Some (hello_request\<lparr> rq_model := Some [], rq_message := Some [] \<rparr>))
         (HttpFail (lit ''refused'')) fresh_world)))
     = [\<lparr> q_model = [], q_messages = [(lit ''user'', [])], q_stream = False,
          q_temperature = 0.7, q_num_predict = 2048 \<rparr>]
   \<and> net_calls (snd (snd (stream_chat default_config
         (Some (hello_request\<lparr> rq_model := Some [], rq_message := Some [] \<rparr>))
         (ConnectFail (lit ''refused'')) fresh_world)))
     = [\<lparr> q_model = [], q_messages = [(lit ''user'', [])], q_stream = True,
          q_temperature = 0.7, q_num_predict = 2048 \<rparr>]"
  by (simp add: chat_run_defs trace_defs lit_def)

section \<open>An id that no chat has\<close>

text \<open>
  Claim C10, as amended.  Take an id that no chat has and that \<open>sqlite3\<close> can
  bind (it holds no lone surrogate).  In \<open>database.py\<close>, which loads as shipped:
  \<open>get_chat\<close> returns \<open>None\<close>, and \<open>delete_chat\<close> returns \<open>True\<close>
  unless the database raises, in which case it returns \<open>False\<close>.  In the handlers
  of the repaired \<open>server.py\<close> (see the section on what is modelled; not a run of
  the file as shipped): reading the chat is answered with status 404 and "Chat nicht
  gefunden"; deleting it is answered as a success, the failure answer, status 500,
  being given only when the database raises.  The delete leaves both tables as they
  were.
\<close>

theorem unknown_id_read_delete:
  assumes unknown: "cid \<notin> set (map c_id (chats w))" and bound: "encode_utf8 cid = None"
  shows "fst (get_chat cid w) = Inr None
       \<and> fst (get_chat_by_id cid w) = ChatNotFound 404 (lit ''Chat nicht gefunden'')
       \<and> fst (delete_chat cid w) = Inr (fault_src w (fault_n w) = None)
       \<and> fst (delete_chat_by_id cid w) =
           (case fault_src w (fault_n w) of
              None \<Rightarrow> DeleteOk True (lit ''Chat erfolgreich gel'' @ [246] @ lit ''scht'')
            | Some f \<Rightarrow> DeleteFailed 500 (lit ''Fehler beim L'' @ [246] @ lit ''schen des Chats''))
       \<and> chats (snd (delete_chat_by_id cid w)) = chats w
       \<and> messages (snd (delete_chat_by_id cid w)) = messages w"
proof (cases "fault_src w (fault_n w)")
  case None
  with assms show ?thesis
    by (simp add: get_chat_by_id_def get_chat_def delete_chat_by_id_def delete_chat_def
          db_execute_def find_None_ids filter_other_ids filter_same_ids del: set_filter)
next
  case (Some f)
  with assms show ?thesis
    by (cases f)
       (simp_all add: get_chat_by_id_def get_chat_def delete_chat_by_id_def delete_chat_def
          db_execute_def)
qed

text \<open>
  An instance, on a database that holds a chat with two messages: the id
  \<open>no-such-chat\<close> reads as not found, its delete returns \<open>True\<close>, and the chat
  and its messages are still there.
\<close>

theorem unknown_id_read_delete_witness:
  "lit ''no-such-chat'' \<notin> set (map c_id (chats stocked_world))
   \<and> encode_utf8 (lit ''no-such-chat'') = None
   \<and> fst (get_chat (lit ''no-such-chat'') stocked_world) = Inr None
   \<and> fst (get_chat_by_id (lit ''no-such-chat'') stocked_world)
       = ChatNotFound 404 (lit ''Chat nicht gefunden'')
   \<and> fst (delete_chat (lit ''no-such-chat'') stocked_world) = Inr True
   \<and> length (chats (snd (delete_chat_by_id (lit ''no-such-chat'') stocked_world))) = 1
   \<and> length (messages (snd (delete_chat_by_id (lit ''no-such-chat'') stocked_world))) = 2"
proof -
  have unknown: "lit ''no-such-chat'' \<notin> set (map c_id (chats stocked_world))"
    by (simp add: stocked_world_def fresh_world_def lit_def)
  have bound: "encode_utf8 (lit ''no-such-chat'') = None"
    by (simp add: encode_utf8_ascii lit_def)
  have sizes: "length (chats stocked_world) = 1" "length (messages stocked_world) = 2"
    "fault_src stocked_world (fault_n stocked_world) = None"
    by (simp_all add: stocked_world_def fresh_world_def)
  from unknown_id_read_delete [OF unknown bound] unknown bound sizes show ?thesis
    by simp
qed

text \<open>
  Claim C10 as stated fails for the delete: on the same database, deleting the id
  \<open>no-such-chat\<close> makes \<open>database.delete_chat\<close> return \<open>True\<close> and is
  answered with \<open>success: true\<close>; nothing but the count of the connections used
  has changed.
\<close>

theorem delete_unknown_reports_success:
  "lit ''no-such-chat'' \<notin> set (map c_id (chats stocked_world))
   \<and> fst (delete_chat (lit ''no-such-chat'') stocked_world) = Inr True
   \<and> fst (delete_chat_by_id (lit ''no-such-chat'') stocked_world)
       = DeleteOk True (lit ''Chat erfolgreich gel'' @ [246] @ lit ''scht'')
   \<and> snd (delete_chat_by_id (lit ''no-such-chat'') stocked_world)
       = stocked_world\<lparr> fault_n := 1 \<rparr>"
  by (simp add: stocked_world_def fresh_world_def delete_chat_by_id_def delete_chat_def
        db_execute_def encode_utf8_ascii lit_def del: set_filter)

section \<open>Generation parameters\<close>

text \<open>
  Claim C9.  In the request that a chat turn or a streaming turn sends, the
  temperature and the token limit are each the explicit value of the call if one is
  given; otherwise the default of the requested model, if \<open>MODEL_PARAMS\<close> has it;
  otherwise the default of the global default model.  Both defaults are read from
  one and the same configuration: the requested model's, or else the default
  model's, never one field from each.
\<close>

theorem parameters_resolved:
  assumes "q = fst (ollama_chat cf model message history temperature max_tokens net)
         \<or> q = fst (ollama_chat_stream cf model message history temperature max_tokens tr)"
  shows "(\<forall>c. MODEL_PARAMS cf model = Some c \<longrightarrow> resolved_from temperature max_tokens c q)
       \<and> (\<forall>d. MODEL_PARAMS cf model = None \<and> MODEL_PARAMS cf (DEFAULT_MODEL cf) = Some d
              \<longrightarrow> resolved_from temperature max_tokens d q)"
  using assms
  by (auto simp: ollama_chat_def ollama_chat_stream_def request_body_def model_config_def
        resolved_from_def split: option.splits)

theorem parameters_resolved_witness:
  "q_temperature (fst (ollama_chat default_config (lit ''mistral'') (lit ''Hello'') [] None
       (Some 100) (HttpFail []))) = 0.72
   \<and> q_num_predict (fst (ollama_chat default_config (lit ''mistral'') (lit ''Hello'') [] None
       (Some 100) (HttpFail []))) = 100
   \<and> q_temperature (fst (ollama_chat_stream default_config (lit ''phi'') (lit ''Hello'') [] None
       None (ConnectFail []))) = 0.7
   \<and> q_num_predict (fst (ollama_chat_stream default_config (lit ''phi'') (lit ''Hello'') [] None
       None (ConnectFail []))) = 2048"
  using parameters_resolved [of
      "fst (ollama_chat default_config (lit ''mistral'') (lit ''Hello'') [] None (Some 100)
             (HttpFail []))"
      default_config "lit ''mistral''" "lit ''Hello''" "[]" None "Some 100" "HttpFail []"]
    parameters_resolved [of
      "fst (ollama_chat_stream default_config (lit ''phi'') (lit ''Hello'') [] None None
             (ConnectFail []))"
      default_config "lit ''phi''" "lit ''Hello''" "[]" None None _ "ConnectFail []"]
  by (simp add: MODEL_PARAMS_def lit_def resolved_from_def default_config_def)

section \<open>The cache of the model list\<close>

text \<open>
  Claim C6.  Take two calls of \<open>get_models\<close> on one client, neither forcing a
  refresh, the first returning a snapshot (a decoded body other than \<open>null\<close>) and
  the second made within the time to live of the snapshot that the cache holds after
  the first.  Then the second call returns the same snapshot, sends nothing to the
  upstream server and leaves the client as it was; the two calls together send at
  most one request.  The window of the second call starts at the time of the first
  call when the first call refreshed the cache, and at the timestamp the cache
  already had when the first call was itself served from the cache.
\<close>

theorem cached_models_reused:
  assumes first: "ollama_get_models c t1 False net1 = (Inr (Some d), c1, k1)"
    and window: "t2 - cache_timestamp c1 < models_cache_time c1"
  shows "ollama_get_models c1 t2 False net2 = (Inr (Some d), c1, 0)
       \<and> k1 \<le> 1
       \<and> cache_timestamp c1 = (if k1 = 0 then cache_timestamp c else t1)"
proof -
  have "cache_data c1 = Some d \<and> k1 \<le> 1
      \<and> cache_timestamp c1 = (if k1 = 0 then cache_timestamp c else t1)"
    using first
    by (auto simp: ollama_get_models_def refresh_models_def Let_def
          split: option.splits if_splits http_result.splits sum.splits)
  then show ?thesis
    using window by (simp add: ollama_get_models_def)
qed

text \<open>
  Two instances: a first call at time 1000 on a new client, which refreshes the
  cache, followed by a call at 1299; and a first call at 1100 served from the cache
  of time 1000, followed by a call at 1299.
\<close>

theorem cached_models_reused_witness:
  "ollama_get_models init_client 1000 False (HttpResp 200 (Inr (Some (7::nat))))
     = (Inr (Some 7), cached_client, 1)
   \<and> ollama_get_models cached_client 1299 False (HttpFail []) = (Inr (Some 7), cached_client, 0)
   \<and> ollama_get_models cached_client 1100 False (HttpFail []) = (Inr (Some 7), cached_client, 0)"
proof -
  have fresh: "ollama_get_models init_client 1000 False (HttpResp 200 (Inr (Some (7::nat))))
      = (Inr (Some 7), cached_client, 1)"
    by (simp add: ollama_get_models_def refresh_models_def init_client_def cached_client_def)
  have hit: "ollama_get_models cached_client 1100 False (HttpFail [])
      = (Inr (Some 7), cached_client, 0)"
    by (simp add: ollama_get_models_def cached_client_def)
  have window: "1299 - cache_timestamp cached_client < models_cache_time cached_client"
    by (simp add: cached_client_def)
  show ?thesis
    using fresh hit cached_models_reused [OF fresh window, of "HttpFail []"]
      cached_models_reused [OF hit window, of "HttpFail []"]
    by simp
qed

text \<open>
  A body that is the JSON text \<open>null\<close> is stored as \<open>None\<close>, which the cache
  test reads as an empty cache: no snapshot is cached, and the next call asks the
  upstream server again.
\<close>

lemma null_snapshot_not_cached:
  "ollama_get_models init_client 1000 False (HttpResp 200 (Inr (None :: nat option)))
     = (Inr None, init_client\<lparr> cache_timestamp := 1000 \<rparr>, 1)
   \<and> ollama_get_models (init_client\<lparr> cache_timestamp := 1000 \<rparr>) 1001 False
       (HttpResp 200 (Inr (None :: nat option)))
     = (Inr None, init_client\<lparr> cache_timestamp := 1001 \<rparr>, 1)"
  by (simp add: ollama_get_models_def refresh_models_def init_client_def)

text \<open>
  A refresh that fails by a network failure or by a status other than 200 returns
  an error and leaves the client, snapshot and timestamp, as it was.
\<close>

lemma failed_refresh_keeps_cache:
  assumes "refresh_attempted c current_time force_refresh"
    and "refresh_fails net"
  shows "\<exists>msg. ollama_get_models c current_time force_refresh net = (Inl msg, c, 1)"
  using assms
  by (auto simp: refresh_attempted_def refresh_fails_def ollama_get_models_def
        refresh_models_def split: option.splits http_result.splits)

text \<open>
  A refresh can fail in a third way: the status is 200 and the body does not decode.
  The timestamp has been stored by then, so the error is returned with the snapshot
  kept and its timestamp moved to the time of the call.
\<close>

lemma undecodable_body_moves_timestamp:
  "refresh_attempted c current_time force_refresh \<Longrightarrow>
   ollama_get_models c current_time force_refresh (HttpResp 200 (Inl e))
     = (Inl (lit ''Verbindungsfehler bei Modellabfrage: '' @ e),
        c\<lparr> cache_timestamp := current_time \<rparr>, 1)"
  by (auto simp: refresh_attempted_def ollama_get_models_def refresh_models_def
        split: option.splits)

text \<open>
  Claim C7 does not hold of \<open>get_models\<close>.  A client holds a snapshot cached at
  time 1000 with a time to live of 300.  A call at 1400, when the entry has expired,
  is answered by the upstream server with status 200 and a body that does not
  decode: the call returns an error, and the timestamp of the cache is now 1400.  A
  call at 1600, when the snapshot of time 1000 expired long ago, is then served from
  the cache without any request.
\<close>

theorem stale_snapshot_kept_alive:
  "cache_data cached_client = Some 7
   \<and> cache_timestamp cached_client = 1000
   \<and> models_cache_time cached_client = 300
   \<and> ollama_get_models cached_client 1400 False (HttpResp 200 (Inl (lit ''Expecting value'')))
       = (Inl (lit ''Verbindungsfehler bei Modellabfrage: Expecting value''),
          cached_client\<lparr> cache_timestamp := 1400 \<rparr>, 1)
   \<and> ollama_get_models (cached_client\<lparr> cache_timestamp := 1400 \<rparr>) 1600 False (HttpFail [])
       = (Inr (Some 7), cached_client\<lparr> cache_timestamp := 1400 \<rparr>, 0)"
  by (simp add: ollama_get_models_def refresh_models_def cached_client_def lit_def)

section \<open>The streaming relay\<close>

text \<open>
  Claim C1, as amended; a statement about the handler \<open>stream_chat\<close> and its
  generator of the repaired \<open>server.py\<close> (see the section on what is modelled),
  not about a run of the file as shipped.  Take a streaming turn that reaches the
  upstream call, whose chunk sequence holds no error chunk and ends without an
  exception, and in which no storage call raises.  Then the trace of the turn ends
  with the write of the assistant message followed at once by the done frame; the
  content of that message is the concatenation, in emission order, of the contents
  of the content frames; the done frame is the only one and carries the id of that
  message; the message is in the table; and no error frame is emitted.
\<close>

theorem successful_stream:
  assumes run: "stream_chat cf data tr w = (reply, w', evs)"
    and called: "Net q \<in> set evs"
    and clean: "\<forall>c\<in>set (fst (stream_chunks tr)). ch_error c = None"
    and ended: "snd (stream_chunks tr) = None"
    and written: "db_errors evs = []"
  shows "(\<exists>mid cid pre.
            evs = pre @ [Persisted mid cid (lit ''assistant'') (concat (content_frames evs)),
                         Yield (DoneFrame mid)]
            \<and> done_frames evs = [mid]
            \<and> assistant_writes evs = [(mid, concat (content_frames evs))]
            \<and> (\<exists>m\<in>set (messages w'). m_id m = mid \<and> m_chat_id m = cid
                   \<and> m_role m = lit ''assistant''
                   \<and> m_content m = concat (content_frames evs)))
       \<and> error_frames evs = [] \<and> reply = EventStream None"
proof -
  let ?cs = "fst (stream_chunks tr)" and ?x = "snd (stream_chunks tr)"
  have finish: ?thesis
    if shape: "evs = pre @ Net q' # fr @
                 [Persisted aid c (lit ''assistant'') full, Yield (DoneFrame aid)]"
      and pre: "content_frames pre = []" "done_frames pre = []" "error_frames pre = []"
        "assistant_writes pre = []"
      and fr: "relay ?cs ?x [] = (fr, Completed full)"
      and add: "add_message c (lit ''assistant'') full w0 = (Inr aid, w')"
      and reply: "reply = EventStream None"
    for pre q' fr aid c full w0
  proof -
    note facts = relay_Completed [OF fr]
    have whole: "concat (content_frames evs) = full"
      using facts pre(1) by (simp add: shape trace_defs)
    have "evs = (pre @ Net q' # fr) @
        [Persisted aid c (lit ''assistant'') (concat (content_frames evs)), Yield (DoneFrame aid)]"
      using shape whole by simp
    moreover have "done_frames evs = [aid]" "error_frames evs = []"
      "assistant_writes evs = [(aid, concat (content_frames evs))]"
      using facts pre whole by (simp_all add: shape trace_defs)
    moreover have "\<exists>m\<in>set (messages w'). m_id m = aid \<and> m_chat_id m = c
              \<and> m_role m = lit ''assistant'' \<and> m_content m = concat (content_frames evs)"
      using add_message_Inr(2) [OF add] whole by simp
    ultimately show ?thesis using reply by blast
  qed
  have no_return: False if "relay ?cs ?x [] = (fr, Returned)" for fr
    using relay_Returned [OF that] clean by auto
  have no_throw: False if "relay ?cs ?x [] = (fr, Threw e)" for fr e
    using relay_Threw [OF that] ended by simp
  from run show ?thesis
  proof (cases rule: stream_chat_cases)
    case rejected
    with called show ?thesis by simp
  next
    case (unhandled x)
    with called show ?thesis by simp
  next
    case (run d model message history w1 raised)
    from run(5) show ?thesis
    proof (cases rule: generate_cases)
      case (create_failed e)
      with called show ?thesis by simp
    next
      case (first_user_failed c w2 e)
      with called show ?thesis by simp
    next
      case (user_failed c e)
      with called show ?thesis by simp
    next
      case (first c w2 uid w3 evs')
      let ?pre = "[Created c (chat_title message) model,
                   Persisted uid c (lit ''user'') message, Yield (ChatIdFrame c)]"
      have pre: "content_frames ?pre = []" "done_frames ?pre = []" "error_frames ?pre = []"
        "assistant_writes ?pre = []"
        by (simp_all add: trace_defs)
      from first(4) show ?thesis
      proof (cases rule: stream_and_store_cases)
        case (returned q' fr)
        with no_return show ?thesis by blast
      next
        case (threw q' fr e)
        with no_throw show ?thesis by blast
      next
        case (dberr q' fr full e)
        with written first(5) show ?thesis by (simp add: trace_defs)
      next
        case (stored q' fr full aid)
        have shape: "evs = ?pre @ Net q' # fr @
            [Persisted aid c (lit ''assistant'') full, Yield (DoneFrame aid)]"
          using stored(3) first(5) by simp
        have reply: "reply = EventStream None"
          using first(6) run(6) by simp
        show ?thesis
          by (rule finish [OF shape pre stored(1) stored(2) reply])
      qed
    next
      case (existing c uid w2 evs')
      let ?pre = "[Persisted uid c (lit ''user'') message]"
      have pre: "content_frames ?pre = []" "done_frames ?pre = []" "error_frames ?pre = []"
        "assistant_writes ?pre = []"
        by (simp_all add: trace_defs)
      from existing(3) show ?thesis
      proof (cases rule: stream_and_store_cases)
        case (returned q' fr)
        with no_return show ?thesis by blast
      next
        case (threw q' fr e)
        with no_throw show ?thesis by blast
      next
        case (dberr q' fr full e)
        with written existing(4) show ?thesis by (simp add: trace_defs)
      next
        case (stored q' fr full aid)
        have shape: "evs = ?pre @ Net q' # fr @
            [Persisted aid c (lit ''assistant'') full, Yield (DoneFrame aid)]"
          using stored(3) existing(4) by simp
        have reply: "reply = EventStream None"
          using existing(5) run(6) by simp
        show ?thesis
          by (rule finish [OF shape pre stored(1) stored(2) reply])
      qed
    qed
  qed
qed

text \<open>
  An instance: the stream "Hi", " there" on an empty database.
\<close>

theorem successful_stream_witness:
  "map ch_error (fst (stream_chunks hi_there)) = [None, None]
   \<and> snd (stream_chunks hi_there) = None
   \<and> db_errors (snd (snd (stream_chat default_config (Some hello_request) hi_there
         fresh_world))) = []
   \<and> content_frames (snd (snd (stream_chat default_config (Some hello_request) hi_there
         fresh_world))) = [lit ''Hi'', lit '' there'']
   \<and> assistant_writes (snd (snd (stream_chat default_config (Some hello_request) hi_there
         fresh_world))) = [(lit ''uuid-2'', lit ''Hi there'')]
   \<and> done_frames (snd (snd (stream_chat default_config (Some hello_request) hi_there
         fresh_world))) = [lit ''uuid-2'']
   \<and> error_frames (snd (snd (stream_chat default_config (Some hello_request) hi_there
         fresh_world))) = []
   \<and> fst (stream_chat default_config (Some hello_request) hi_there fresh_world)
       = EventStream None"
proof -
  let ?run = "stream_chat default_config (Some hello_request) hi_there fresh_world"
  have chunks: "map ch_error (fst (stream_chunks hi_there)) = [None, None]"
    "snd (stream_chunks hi_there) = None"
    by (simp_all add: hi_there_def stream_chunks_def content_chunk_def)
  have clean: "\<forall>c\<in>set (fst (stream_chunks hi_there)). ch_error c = None"
    by (simp add: hi_there_def stream_chunks_def content_chunk_def)
  have called: "Net hello_llama \<in> set (snd (snd ?run))"
    by (simp add: hi_there_trace)
  have written: "db_errors (snd (snd ?run)) = []"
    by (simp add: hi_there_trace trace_defs)
  have run: "?run = (fst ?run, fst (snd ?run), snd (snd ?run))"
    by simp
  from successful_stream [OF run called clean chunks(2) written]
  have "error_frames (snd (snd ?run)) = [] \<and> fst ?run = EventStream None"
    by blast
  with chunks written show ?thesis
    by (simp add: hi_there_trace trace_defs lit_def)
qed

text \<open>
  Claim C1 as stated fails.  The chunk sequence "Hi", " there" ends without any
  error chunk, yet when the write of the assistant message raises, the turn emits
  the two content frames, then an error frame, and no done frame, and no assistant
  message is written.  So it is when a line of the body is not UTF-8: the chunk
  sequence holds no error chunk, and the turn ends with an error frame and no done
  frame.
\<close>

theorem clean_stream_without_done:
  "map ch_error (fst (stream_chunks hi_there)) = [None, None]
   \<and> snd (stream_chunks hi_there) = None
   \<and> content_frames (snd (snd (stream_chat default_config (Some hello_request) hi_there
         late_fault_world))) = [lit ''Hi'', lit '' there'']
   \<and> done_frames (snd (snd (stream_chat default_config (Some hello_request) hi_there
         late_fault_world))) = []
   \<and> error_frames (snd (snd (stream_chat default_config (Some hello_request) hi_there
         late_fault_world))) = [lit ''disk I/O error'']
   \<and> assistant_writes (snd (snd (stream_chat default_config (Some hello_request) hi_there
         late_fault_world))) = []
   \<and> map ch_error (fst (stream_chunks hi_not_utf8)) = [None]
   \<and> done_frames (snd (snd (stream_chat default_config (Some hello_request) hi_not_utf8
         fresh_world))) = []
   \<and> error_frames (snd (snd (stream_chat default_config (Some hello_request) hi_not_utf8
         fresh_world))) = [lit ''invalid start byte'']"
proof -
  have chunks: "map ch_error (fst (stream_chunks hi_there)) = [None, None]"
    "snd (stream_chunks hi_there) = None"
    "map ch_error (fst (stream_chunks hi_not_utf8)) = [None]"
    by (simp_all add: hi_there_def hi_not_utf8_def stream_chunks_def content_chunk_def)
  show ?thesis
    unfolding chunks by (simp add: hi_there_late_fault_trace hi_not_utf8_trace trace_defs)
qed

text \<open>
  Claim C4; a statement about the handler \<open>stream_chat\<close> and its generator of
  the repaired \<open>server.py\<close> (see the section on what is modelled), not about a
  run of the file as shipped.  In a streaming turn that reaches the upstream call and
  whose chunk sequence holds an error chunk, exactly one error frame is emitted, no
  done frame is emitted and no assistant message is written: the assistant rows of
  the table are those from before the turn.
\<close>

theorem upstream_error_ends_turn:
  assumes run: "stream_chat cf data tr w = (reply, w', evs)"
    and called: "Net q \<in> set evs"
    and failed: "\<exists>c\<in>set (fst (stream_chunks tr)). ch_error c \<noteq> None"
  shows "length (error_frames evs) = 1 \<and> done_frames evs = [] \<and> assistant_writes evs = []
       \<and> filter (\<lambda>m. m_role m = lit ''assistant'') (messages w')
           = filter (\<lambda>m. m_role m = lit ''assistant'') (messages w)"
proof -
  let ?cs = "fst (stream_chunks tr)" and ?x = "snd (stream_chunks tr)"
  have stop: "length (error_frames (Net q' # fr)) = 1 \<and> done_frames (Net q' # fr) = []
          \<and> assistant_writes (Net q' # fr) = []"
    if "relay ?cs ?x [] = (fr, Returned)" for q' fr
    using relay_Returned [OF that] by (simp add: trace_defs)
  have never: False if "relay ?cs ?x [] = (fr, Completed full)" for fr full
    using relay_Completed [OF that] failed by auto
  have never_thrown: False if "relay ?cs ?x [] = (fr, Threw e)" for fr e
    using relay_Threw [OF that] failed by auto
  from run show ?thesis
  proof (cases rule: stream_chat_cases)
    case rejected
    with called show ?thesis by simp
  next
    case (unhandled x)
    with called show ?thesis by simp
  next
    case (run d model message history w1 raised)
    note hist = load_history_frame [OF run(4)]
    from run(5) show ?thesis
    proof (cases rule: generate_cases)
      case (create_failed e)
      with called show ?thesis by simp
    next
      case (first_user_failed cid w2 e)
      with called show ?thesis by simp
    next
      case (user_failed cid e)
      with called show ?thesis by simp
    next
      case (first cid w2 uid w3 evs')
      note made = create_chat_Inr [OF first(2)] and user = add_message_Inr [OF first(3)]
      from first(4) show ?thesis
      proof (cases rule: stream_and_store_cases)
        case (returned q' fr)
        with stop [OF returned(1), of q'] first(5) made(3) user(2) hist(2) show ?thesis
          by (simp add: trace_defs)
      next
        case (threw q' fr e)
        with never_thrown show ?thesis by blast
      next
        case (dberr q' fr full e)
        with never show ?thesis by blast
      next
        case (stored q' fr full aid)
        with never show ?thesis by blast
      qed
    next
      case (existing cid uid w2 evs')
      note user = add_message_Inr [OF existing(2)]
      from existing(3) show ?thesis
      proof (cases rule: stream_and_store_cases)
        case (returned q' fr)
        with stop [OF returned(1), of q'] existing(4) user(2) hist(2) show ?thesis
          by (simp add: trace_defs)
      next
        case (threw q' fr e)
        with never_thrown show ?thesis by blast
      next
        case (dberr q' fr full e)
        with never show ?thesis by blast
      next
        case (stored q' fr full aid)
        with never show ?thesis by blast
      qed
    qed
  qed
qed

text \<open>
  An instance: a content chunk "Hi", after which the transport breaks.
\<close>

theorem upstream_error_ends_turn_witness:
  "map ch_error (fst (stream_chunks hi_broken))
     = [None, Some (lit ''Verbindungsfehler bei Stream-Anfrage: connection reset'')]
   \<and> net_calls (snd (snd (stream_chat default_config (Some hello_request) hi_broken fresh_world)))
       = [hello_llama]
   \<and> error_frames (snd (snd (stream_chat default_config (Some hello_request) hi_broken
         fresh_world)))
       = [lit ''Verbindungsfehler bei Stream-Anfrage: connection reset'']
   \<and> done_frames (snd (snd (stream_chat default_config (Some hello_request) hi_broken
         fresh_world))) = []
   \<and> assistant_writes (snd (snd (stream_chat default_config (Some hello_request) hi_broken
         fresh_world))) = []"
proof -
  let ?run = "stream_chat default_config (Some hello_request) hi_broken fresh_world"
  have chunks: "map ch_error (fst (stream_chunks hi_broken))
     = [None, Some (lit ''Verbindungsfehler bei Stream-Anfrage: connection reset'')]"
    by (simp add: hi_broken_def stream_chunks_def error_dict_def content_chunk_def lit_def)
  have failed: "\<exists>c\<in>set (fst (stream_chunks hi_broken)). ch_error c \<noteq> None"
    by (simp add: hi_broken_def stream_chunks_def error_dict_def content_chunk_def)
  have called: "Net hello_llama \<in> set (snd (snd ?run))"
    by (simp add: hi_broken_trace)
  have run: "?run = (fst ?run, fst (snd ?run), snd (snd ?run))"
    by simp
  from upstream_error_ends_turn [OF run called failed] chunks show ?thesis
    by (simp add: hi_broken_trace trace_defs)
qed

section \<open>A storage failure after the answer\<close>



section \<open>The first turn of a conversation\<close>

text \<open>
  Claim C5, as amended; a statement about the handlers \<open>chat\<close> and
  \<open>stream_chat\<close> of the repaired \<open>server.py\<close> (see the section on what is
  modelled), not about a run of the file as shipped.  Take a first turn, submitted
  with no conversation id, on a database that respects its foreign key and under a
  clock that does not run backwards.  When the turn completes (the blocking handler
  answers with the chat id, the response and the message id; the streaming handler
  emits its done frame), exactly one conversation record has been created; its
  title is the first 50 characters of the user message, followed by three dots if
  the message has more than 50 characters and by nothing otherwise; and the stored
  message list of the conversation is the user message followed by the assistant
  message.  In the streaming turn the id of the conversation is the one its first
  frame announced, and the assistant message is the concatenation of the content
  frames.
\<close>

theorem first_turn_round_trip:
  assumes first: "given_chat_id (rq_chat_id d) = None"
    and fields: "rq_model d = Some model" "rq_message d = Some message"
    and fk: "fk_ok w" and clock: "mono (clock_src w)"
  shows "(chat cf (Some d) net w = (ChatOk cid txt mid, w', evs)
            \<longrightarrow> first_turn_stored w w' cid model message txt)
       \<and> (stream_chat cf (Some d) tr w = (reply, w'', evs') \<and> Yield (DoneFrame mid') \<in> set evs'
            \<longrightarrow> (\<exists>cid'. Yield (ChatIdFrame cid') \<in> set evs'
                   \<and> first_turn_stored w w'' cid' model message (concat (content_frames evs'))))"
proof (intro conjI impI)
  assume "chat cf (Some d) net w = (ChatOk cid txt mid, w', evs)"
  then show "first_turn_stored w w' cid model message txt"
    using first fields
  proof (rule chat_Ok_first)
    fix w1 uid w2
    assume "create_chat (chat_title message) model w = (Inr cid, w1)"
      "add_message cid (lit ''user'') message w1 = (Inr uid, w2)"
      "add_message cid (lit ''assistant'') txt w2 = (Inr mid, w')"
    then show ?thesis using fk clock by (rule turn_stored)
  qed
next
  assume asm: "stream_chat cf (Some d) tr w = (reply, w'', evs') \<and> Yield (DoneFrame mid') \<in> set evs'"
  then have run: "stream_chat cf (Some d) tr w = (reply, w'', evs')"
    and fin: "Yield (DoneFrame mid') \<in> set evs'" by simp_all
  from run show "\<exists>cid'. Yield (ChatIdFrame cid') \<in> set evs'
      \<and> first_turn_stored w w'' cid' model message (concat (content_frames evs'))"
  proof (cases rule: stream_chat_cases)
    case rejected
    with fin show ?thesis by simp
  next
    case (unhandled x)
    with fin show ?thesis by simp
  next
    case (run d' model' message' history w1 raised)
    with fields have same: "d' = d" "model' = model" "message' = message" by simp_all
    from load_history_frame(5) [OF run(4)] first same have w1: "w1 = w" by simp
    from run(5) show ?thesis
    proof (cases rule: generate_cases)
      case (create_failed e)
      with fin show ?thesis by simp
    next
      case (first_user_failed c w2 e)
      with fin show ?thesis by simp
    next
      case (user_failed c e)
      with first same show ?thesis by simp
    next
      case (existing c uid w2 evs2)
      with first same show ?thesis by simp
    next
      case (first c w2 uid w3 evs2)
      from first(4) show ?thesis
      proof (cases rule: stream_and_store_cases)
        case (returned q fr)
        with relay_Returned [OF returned(1)] fin first(5) show ?thesis
          by (auto simp: trace_defs dest: relay_yields)
      next
        case (threw q fr e)
        with relay_Threw [OF threw(1)] fin first(5) show ?thesis
          by (auto simp: trace_defs dest: relay_yields)
      next
        case (dberr q fr full e)
        with relay_Completed [OF dberr(1)] fin first(5) show ?thesis
          by (auto simp: trace_defs dest: relay_yields)
      next
        case (stored q fr full aid)
        from relay_Completed [OF stored(1)] have full: "full = concat (content_frames fr)" by simp
        have whole: "concat (content_frames evs') = full"
          by (simp add: first(5) stored(3) full trace_defs)
        have "first_turn_stored w w'' c model message full"
          using first(2,3) stored(2) fk clock unfolding same w1 by (rule turn_stored)
        then show ?thesis
          using whole first(5) by auto
      qed
    qed
  qed
qed

text \<open>
  An instance with a message of 60 characters, for both handlers: the title is its
  first 50 characters and three dots.
\<close>

theorem first_turn_round_trip_witness:
  "fst (chat default_config (Some long_request) hi_response fresh_world)
     = ChatOk (lit ''uuid-0'') (lit ''Hi there'') (lit ''uuid-2'')
   \<and> first_turn_stored fresh_world
       (fst (snd (chat default_config (Some long_request) hi_response fresh_world)))
       (lit ''uuid-0'') (lit ''llama3'') (replicate 60 97) (lit ''Hi there'')
   \<and> map c_title (chats (fst (snd (chat default_config (Some long_request) hi_response
         fresh_world)))) = [replicate 50 97 @ lit ''...'']
   \<and> done_frames (snd (snd (stream_chat default_config (Some long_request) hi_there
         fresh_world))) = [lit ''uuid-2'']
   \<and> first_turn_stored fresh_world
       (fst (snd (stream_chat default_config (Some long_request) hi_there fresh_world)))
       (lit ''uuid-0'') (lit ''llama3'') (replicate 60 97) (lit ''Hi there'')
   \<and> map c_title (chats (fst (snd (stream_chat default_config (Some long_request) hi_there
         fresh_world)))) = [replicate 50 97 @ lit ''...'']"
proof -
  let ?b = "chat default_config (Some long_request) hi_response fresh_world"
  let ?s = "stream_chat default_config (Some long_request) hi_there fresh_world"
  have first: "given_chat_id (rq_chat_id long_request) = None"
    and fields: "rq_model long_request = Some (lit ''llama3'')"
      "rq_message long_request = Some (replicate 60 97)"
    by (simp_all add: long_request_def hello_request_def given_chat_id_def)
  have fk: "fk_ok fresh_world"
    by (simp add: fk_ok_def fresh_world_def)
  have clock: "mono (clock_src fresh_world)"
    by (simp add: fresh_world_def mono_def)
  have b: "?b = (ChatOk (lit ''uuid-0'') (lit ''Hi there'') (lit ''uuid-2''),
      fst (snd ?b), snd (snd ?b))"
    using hi_response_reply by (metis prod.collapse)
  have s: "?s = (fst ?s, fst (snd ?s), snd (snd ?s))"
    by simp
  have fin: "Yield (DoneFrame (lit ''uuid-2'')) \<in> set (snd (snd ?s))"
    by (simp add: long_stream_trace)
  note both = first_turn_round_trip [OF first fields fk clock,
      of default_config hi_response "lit ''uuid-0''" "lit ''Hi there''" "lit ''uuid-2''"
        "fst (snd ?b)" "snd (snd ?b)" hi_there "fst ?s" "fst (snd ?s)" "snd (snd ?s)"
        "lit ''uuid-2''"]
  from both b have blocking: "first_turn_stored fresh_world (fst (snd ?b))
       (lit ''uuid-0'') (lit ''llama3'') (replicate 60 97) (lit ''Hi there'')"
    by blast
  from both s fin obtain cid' where "Yield (ChatIdFrame cid') \<in> set (snd (snd ?s))"
    "first_turn_stored fresh_world (fst (snd ?s)) cid' (lit ''llama3'') (replicate 60 97)
       (concat (content_frames (snd (snd ?s))))"
    by blast
  then have streaming: "first_turn_stored fresh_world (fst (snd ?s))
       (lit ''uuid-0'') (lit ''llama3'') (replicate 60 97) (lit ''Hi there'')"
    by (simp add: long_stream_trace trace_defs lit_def)
  have fin': "done_frames (snd (snd ?s)) = [lit ''uuid-2'']"
    by (simp add: long_stream_trace trace_defs)
  have titles: "map c_title (chats (fst (snd ?b))) = [replicate 50 97 @ lit ''...'']"
    "map c_title (chats (fst (snd ?s))) = [replicate 50 97 @ lit ''...'']"
    by (simp_all add: chat_run_defs long_request_def hi_there_def lit_def)
  from hi_response_reply blocking streaming fin' titles show ?thesis by simp
qed

text \<open>
  Claim C5 as stated fails in two ways.  A blocking first turn whose upstream call
  fails is answered with status 500 and creates no conversation.  And a blocking
  first turn that completes under a clock that runs backwards stores both messages,
  but the conversation reads back as the assistant message followed by the user
  message.
\<close>

theorem first_turn_not_always_stored:
  "given_chat_id (rq_chat_id hello_request) = None
   \<and> fst (chat default_config (Some hello_request) (HttpFail (lit ''refused'')) fresh_world)
       = ChatError 500 (lit ''Verbindungsfehler bei Chat-Anfrage: refused'')
   \<and> chats (fst (snd (chat default_config (Some hello_request) (HttpFail (lit ''refused''))
         fresh_world))) = []
   \<and> fst (chat default_config (Some hello_request) hi_response backward_world)
       = ChatOk (lit ''uuid-0'') (lit ''Hi there'') (lit ''uuid-2'')
   \<and> map (\<lambda>m. (m_role m, m_content m))
         (select_messages
            (fst (snd (chat default_config (Some hello_request) hi_response backward_world)))
            (lit ''uuid-0''))
       = [(lit ''assistant'', lit ''Hi there''), (lit ''user'', lit ''Hello'')]"
  by (simp add: chat_run_defs backward_world_def select_messages_def lit_def)

end
